theory Spec2Isabelle
  imports Complex_Main "HOL-Library.Word" "HOL-Library.AList"
begin

section \<open>The MEX entry point of find\_face\_landmarks\<close>

text \<open>
  The repository's source is one function, \<open>mexFunction\<close> in
  \<^verbatim>\<open>interfaces/matlab/find_face_landmarks_mex/find_face_landmarks_mex.cpp\<close>.
  It parses the host's arguments, creates a tracking session and a video source, pulls
  frames, and converts the session's sequence into a struct array.

  The function is embedded as a state transformer. Every library it calls (MxArray, sfl,
  vsal, OpenCV's highgui) is outside the file: what those calls answer is a parameter of
  the model, and every call is recorded in the state, so that "before any side effect"
  can be said. A \<open>throw\<close> is a value in the field \<open>thrown\<close>; the \<open>catch\<close> at the end
  of \<open>mexFunction\<close> turns it into the host's error when it is a \<open>std::exception\<close>, and
  lets it pass otherwise. The main loop runs for as long as the video source answers, so
  the function has an \<open>option\<close> result: \<open>None\<close> is a call that never returns.

  The parameter \<open>nlhs\<close> is never read, and \<open>nrhs\<close> is the length of \<open>prhs\<close>.
\<close>

subsection \<open>Exceptions\<close>

text \<open>
  What leaves a callee that throws: a \<open>std::exception\<close> (or an object of a class derived
  from it) with its message, or a value of any other type.
\<close>

datatype raised = std_exception string | other_exception

text \<open>
  An exception in the try block: \<open>runtime_error\<close> is one the function throws itself
  (lines 40 to 73), with its message; \<open>escaped\<close> is one that leaves a callee.
\<close>

datatype cpp_exception = runtime_error string | escaped raised

text \<open>
  The handler of line 160 is \<open>catch (std::exception& e)\<close>, and there is no other: it
  matches a \<open>std::exception\<close>, and \<open>caught\<close> is then \<open>e.what()\<close>; it does not match a
  value of another type.
\<close>

fun caught :: "cpp_exception \<Rightarrow> string option" where
  "caught (runtime_error m) = Some m"
| "caught (escaped (std_exception m)) = Some m"
| "caught (escaped other_exception) = None"

definition and_then ::
  "cpp_exception + 'a \<Rightarrow> ('a \<Rightarrow> cpp_exception + 'b) \<Rightarrow> cpp_exception + 'b" where
  "and_then r f = (case r of Inl e \<Rightarrow> Inl e | Inr v \<Rightarrow> f v)"

subsection \<open>Machine integers and host arguments\<close>

text \<open>A C \<open>int\<close>: 32 bits, \<open>+\<close> wraps, \<open>sint\<close> reads the signed value.\<close>

type_synonym c_int = "32 word"

text \<open>The classes of a host array (\<open>mxClassID\<close> of the host's C interface).\<close>

datatype mxClassID =
    mxUNKNOWN_CLASS | mxCELL_CLASS | mxSTRUCT_CLASS | mxLOGICAL_CLASS | mxCHAR_CLASS
  | mxVOID_CLASS | mxDOUBLE_CLASS | mxSINGLE_CLASS | mxINT8_CLASS | mxUINT8_CLASS
  | mxINT16_CLASS | mxUINT16_CLASS | mxINT32_CLASS | mxUINT32_CLASS | mxINT64_CLASS
  | mxUINT64_CLASS | mxFUNCTION_CLASS

text \<open>The host's \<open>mxIsNumeric\<close>: the floating-point and the integer classes.\<close>

definition mxIsNumeric :: "mxClassID \<Rightarrow> bool" where
  "mxIsNumeric c \<longleftrightarrow>
     c \<in> {mxDOUBLE_CLASS, mxSINGLE_CLASS, mxINT8_CLASS, mxUINT8_CLASS, mxINT16_CLASS,
          mxUINT16_CLASS, mxINT32_CLASS, mxUINT32_CLASS, mxINT64_CLASS, mxUINT64_CLASS}"

text \<open>
  An input argument \<open>prhs[k]\<close>, seen through the wrapper \<open>MxArray\<close> (its header is not part
  of the source file): the class of the array, and what each conversion the function may
  apply to it answers. \<open>Inl x\<close> is a conversion that throws \<open>x\<close>.
\<close>

record mxArg =
  classID :: mxClassID
  toString :: "raised + string"
  toInt :: "raised + c_int"
  toDouble :: "raised + real"
  toBool :: "raised + bool"

definition isChar :: "mxArg \<Rightarrow> bool" where
  "isChar a \<longleftrightarrow> classID a = mxCHAR_CLASS"

definition isInt32 :: "mxArg \<Rightarrow> bool" where
  "isInt32 a \<longleftrightarrow> classID a = mxINT32_CLASS"

definition isDouble :: "mxArg \<Rightarrow> bool" where
  "isDouble a \<longleftrightarrow> classID a = mxDOUBLE_CLASS"

subsection \<open>Parsing the arguments (lines 34 to 60)\<close>

record params =
  inputPath :: string
  landmarksModelPath :: string
  device :: c_int
  width :: c_int
  height :: c_int
  frame_scale :: real
  preview :: bool

text \<open>The initial values of the locals (lines 35 to 39).\<close>

definition defaults :: params where
  "defaults = \<lparr> inputPath = [], landmarksModelPath = [], device = - 1, width = 0,
     height = 0, frame_scale = 1, preview = True \<rparr>"

text \<open>
  One assignment from an argument each. \<open>float_cast\<close> is the narrowing \<open>(float)\<close> of
  a double, left open.
\<close>

definition set_landmarksModelPath :: "mxArg \<Rightarrow> params \<Rightarrow> cpp_exception + params" where
  "set_landmarksModelPath a p =
     (case toString a of Inl m \<Rightarrow> Inl (escaped m)
      | Inr s \<Rightarrow> Inr (p\<lparr>landmarksModelPath := s\<rparr>))"

definition set_inputPath :: "mxArg \<Rightarrow> params \<Rightarrow> cpp_exception + params" where
  "set_inputPath a p =
     (case toString a of Inl m \<Rightarrow> Inl (escaped m) | Inr s \<Rightarrow> Inr (p\<lparr>inputPath := s\<rparr>))"

definition set_frame_scale ::
  "(real \<Rightarrow> real) \<Rightarrow> mxArg \<Rightarrow> params \<Rightarrow> cpp_exception + params" where
  "set_frame_scale float_cast a p =
     (case toDouble a of Inl m \<Rightarrow> Inl (escaped m)
      | Inr d \<Rightarrow> Inr (p\<lparr>frame_scale := float_cast d\<rparr>))"

definition set_preview :: "mxArg \<Rightarrow> params \<Rightarrow> cpp_exception + params" where
  "set_preview a p =
     (case toBool a of Inl m \<Rightarrow> Inl (escaped m) | Inr b \<Rightarrow> Inr (p\<lparr>preview := b\<rparr>))"

definition set_device :: "mxArg \<Rightarrow> params \<Rightarrow> cpp_exception + params" where
  "set_device a p =
     (case toInt a of Inl m \<Rightarrow> Inl (escaped m) | Inr i \<Rightarrow> Inr (p\<lparr>device := i\<rparr>))"

definition set_width :: "mxArg \<Rightarrow> params \<Rightarrow> cpp_exception + params" where
  "set_width a p =
     (case toInt a of Inl m \<Rightarrow> Inl (escaped m) | Inr i \<Rightarrow> Inr (p\<lparr>params.width := i\<rparr>))"

definition set_height :: "mxArg \<Rightarrow> params \<Rightarrow> cpp_exception + params" where
  "set_height a p =
     (case toInt a of Inl m \<Rightarrow> Inl (escaped m) | Inr i \<Rightarrow> Inr (p\<lparr>params.height := i\<rparr>))"

text \<open>
  Lines 40 to 60. \<open>nrhs\<close> is the number of arguments the host passes, the length of
  \<open>prhs\<close>; every \<open>prhs ! k\<close> below is read under a test that \<open>k < nrhs\<close>.
\<close>

definition parse_arguments :: "(real \<Rightarrow> real) \<Rightarrow> mxArg list \<Rightarrow> cpp_exception + params" where
  "parse_arguments float_cast prhs =
     (let nrhs = length prhs in
      if nrhs = 0 then Inl (runtime_error ''No parameters specified!'')
      else if nrhs < 2 then Inl (runtime_error ''Invalid number of parameters!'')
      else if \<not> isChar (prhs ! 0) then Inl (runtime_error
        ''modelFile must be a string containing the path to the model file!'')
      else and_then (set_landmarksModelPath (prhs ! 0) defaults) (\<lambda>p1.
        if isChar (prhs ! 1) then
          and_then (set_inputPath (prhs ! 1) p1) (\<lambda>p2.
          and_then (if nrhs > 2 then set_frame_scale float_cast (prhs ! 2) p2 else Inr p2) (\<lambda>p3.
          if nrhs > 3 then set_preview (prhs ! 3) p3 else Inr p3))
        else if isInt32 (prhs ! 1) \<or> isDouble (prhs ! 1) then
          and_then (set_device (prhs ! 1) p1) (\<lambda>p2.
          and_then (if nrhs > 2 then set_width (prhs ! 2) p2 else Inr p2) (\<lambda>p3.
          and_then (if nrhs > 3 then set_height (prhs ! 3) p3 else Inr p3) (\<lambda>p4.
          if nrhs > 4 then set_frame_scale float_cast (prhs ! 4) p4 else Inr p4)))
        else Inl (runtime_error
          ''Second parameter must be either a sequence path or a device id!'')))"

subsection \<open>Results of the tracking session (sfl)\<close>

text \<open>\<open>cv::Point\<close> and \<open>cv::Rect\<close>, with \<open>int\<close> members.\<close>

record Point =
  pt_x :: c_int
  pt_y :: c_int

record Rect =
  rect_x :: c_int
  rect_y :: c_int
  rect_width :: c_int
  rect_height :: c_int

record Face =
  landmarks :: "Point list"
  bbox :: Rect

record Frame =
  faces :: "Face list"
  width :: c_int
  height :: c_int

subsection \<open>Host arrays the function builds\<close>

text \<open>
  A numeric array is its rows. A struct array has its dimensions, its field names, and
  for each element the fields that have been set; a field never set is absent (the host
  reads it as empty).
\<close>

datatype mxArray =
    mxNumeric "c_int list list"
  | mxStruct "nat list" "string list" "(string \<times> mxArray) list list"

definition mxCreateStructArray :: "nat \<Rightarrow> nat list \<Rightarrow> nat \<Rightarrow> string list \<Rightarrow> mxArray" where
  "mxCreateStructArray ndim dims nfields fieldnames =
     mxStruct (take ndim dims) (take nfields fieldnames)
       (replicate (prod_list (take ndim dims)) [])"

text \<open>
  \<open>mxSetField\<close> on an element and a field the array has; the function never calls it
  otherwise, and the model leaves the array as it is there.
\<close>

fun mxSetField :: "mxArray \<Rightarrow> nat \<Rightarrow> string \<Rightarrow> mxArray \<Rightarrow> mxArray" where
  "mxSetField (mxStruct dims fs cells) i name v =
     (if i < length cells \<and> name \<in> set fs
      then mxStruct dims fs (cells[i := AList.update name v (cells ! i)])
      else mxStruct dims fs cells)"
| "mxSetField (mxNumeric rows) i name v = mxNumeric rows"

fun mxGetField :: "mxArray \<Rightarrow> nat \<Rightarrow> string \<Rightarrow> mxArray option" where
  "mxGetField (mxStruct dims fs cells) i name =
     (if i < length cells then map_of (cells ! i) name else None)"
| "mxGetField (mxNumeric rows) i name = None"

fun mxGetDimensions :: "mxArray \<Rightarrow> nat list" where
  "mxGetDimensions (mxStruct dims fs cells) = dims"
| "mxGetDimensions (mxNumeric rows) = [length rows, (case rows of [] \<Rightarrow> 0 | r # _ \<Rightarrow> length r)]"

fun mxGetNumberOfElements :: "mxArray \<Rightarrow> nat" where
  "mxGetNumberOfElements (mxStruct dims fs cells) = length cells"
| "mxGetNumberOfElements (mxNumeric rows) = length (concat rows)"

fun mxFieldNames :: "mxArray \<Rightarrow> string list" where
  "mxFieldNames (mxStruct dims fs cells) = fs"
| "mxFieldNames (mxNumeric rows) = []"

text \<open>
  Modelled from the spec: the constructors of \<open>MxArray\<close> (MxArray.hpp is not in the
  source file) carry the values over unchanged: an \<open>int\<close> becomes a scalar, a matrix of
  \<open>int\<close> keeps its rows, a rectangle becomes the row \<open>[x, y, width, height]\<close>.
\<close>

definition MxArray_int :: "c_int \<Rightarrow> mxArray" where
  "MxArray_int v = mxNumeric [[v]]"

definition MxArray_Mat :: "c_int list list \<Rightarrow> mxArray" where
  "MxArray_Mat rows = mxNumeric rows"

definition MxArray_Rect :: "Rect \<Rightarrow> mxArray" where
  "MxArray_Rect r = mxNumeric [[rect_x r, rect_y r, rect_width r, rect_height r]]"

subsection \<open>Converting the sequence (lines 106 to 155)\<close>

text \<open>
  \<open>cv::Mat_<int> landmarks(n, 2, (int*)face.landmarks.data())\<close> is a matrix header over
  the memory of the face's own points, one row \<open>[x, y]\<close> for each point, and
  \<open>landmarks += 1\<close> adds to every entry in place, so the face in the session's sequence
  changes with it. \<open>points_of_Mat\<close> reads the rows back as the points they overlay.
\<close>

definition Mat_of_points :: "Point list \<Rightarrow> c_int list list" where
  "Mat_of_points ps = map (\<lambda>p. [pt_x p, pt_y p]) ps"

definition Mat_add :: "c_int list list \<Rightarrow> c_int \<Rightarrow> c_int list list" where
  "Mat_add m s = map (map (\<lambda>v. v + s)) m"

definition points_of_Mat :: "c_int list list \<Rightarrow> Point list" where
  "points_of_Mat m = map (\<lambda>r. \<lparr> pt_x = r ! 0, pt_y = r ! 1 \<rparr>) m"

definition frame_fields :: "string list" where
  "frame_fields = [''faces'', ''width'', ''height'']"

definition face_fields :: "string list" where
  "face_fields = [''landmarks'', ''bbox'']"

text \<open>
  The body of the loop over the faces (lines 139 to 153), on face \<open>j\<close>. The matrix
  \<open>bbox_mat\<close> of line 149 is built and not used: line 153 passes \<open>face.bbox\<close>.
  The result is the array of faces and the face as the addition in place leaves it.
\<close>

definition convert_face :: "mxArray \<Rightarrow> nat \<Rightarrow> Face \<Rightarrow> mxArray \<times> Face" where
  "convert_face facesStructArray j face =
     (let landmarks_mat = Mat_add (Mat_of_points (landmarks face)) 1;
          arr1 = mxSetField facesStructArray j (face_fields ! 0) (MxArray_Mat landmarks_mat);
          bbox_mat = [[rect_x (bbox face) + 1, rect_y (bbox face) + 1,
                       rect_width (bbox face), rect_height (bbox face)]];
          arr2 = mxSetField arr1 j (face_fields ! 1) (MxArray_Rect (bbox face))
      in (arr2, face\<lparr>landmarks := points_of_Mat landmarks_mat\<rparr>))"

fun faces_loop :: "nat \<Rightarrow> Face list \<Rightarrow> mxArray \<Rightarrow> mxArray \<times> Face list" where
  "faces_loop j [] arr = (arr, [])"
| "faces_loop j (face # rest) arr =
     (let (arr1, face1) = convert_face arr j face;
          (arr2, rest1) = faces_loop (Suc j) rest arr1
      in (arr2, face1 # rest1))"

text \<open>
  The body of the loop over the frames (lines 121 to 154), on frame \<open>i\<close>. Line 134
  stores the pointer \<open>facesStructArray\<close> in the frame's field before the faces are
  written, and the loop over the faces writes through that pointer: the field holds the
  array as that loop leaves it.
\<close>

definition convert_frame :: "mxArray \<Rightarrow> nat \<Rightarrow> Frame \<Rightarrow> mxArray \<times> Frame" where
  "convert_frame plhs0 i frame =
     (let a1 = mxSetField plhs0 i (frame_fields ! 1) (MxArray_int (Frame.width frame));
          a2 = mxSetField a1 i (frame_fields ! 2) (MxArray_int (Frame.height frame))
      in if faces frame = [] then (a2, frame)
         else
           (let facesStructArray =
                  mxCreateStructArray 2 [1, length (faces frame)] 2 face_fields;
                (filled, faces1) = faces_loop 0 (faces frame) facesStructArray;
                a3 = mxSetField a2 i (frame_fields ! 0) filled
            in (a3, frame\<lparr>faces := faces1\<rparr>)))"

fun frames_loop :: "nat \<Rightarrow> Frame list \<Rightarrow> mxArray \<Rightarrow> mxArray \<times> Frame list" where
  "frames_loop i [] arr = (arr, [])"
| "frames_loop i (frame # rest) arr =
     (let (arr1, frame1) = convert_frame arr i frame;
          (arr2, rest1) = frames_loop (Suc i) rest arr1
      in (arr2, frame1 # rest1))"

text \<open>Lines 109 to 155: the value of \<open>plhs[0]\<close>, and the sequence after the loops.\<close>

definition output_results :: "Frame list \<Rightarrow> mxArray \<times> Frame list" where
  "output_results frames =
     frames_loop 0 frames (mxCreateStructArray 2 [1, length frames] 3 frame_fields)"

subsection \<open>The libraries the function drives\<close>

text \<open>
  A video source after \<open>read()\<close> has answered true: what \<open>isUpdated()\<close> and
  \<open>getFrame()\<close> answer then.
\<close>

datatype 'img pull = Pull (isUpdated: bool) (getFrame: 'img)

text \<open>What a call of \<open>read()\<close> does: it answers true or false, or an exception leaves it.\<close>

datatype 'img read_answer = Read_true "'img pull" | Read_false | Read_throws raised

text \<open>
  A video source (\<open>vsal::VideoStreamOpenCV\<close>, outside the file) as the function sees it:
  what \<open>open()\<close> answers, and what \<open>read()\<close> does after \<open>n\<close> reads that answered
  true. A source may answer true for ever.
\<close>

record 'img VideoStream =
  opens :: "raised + bool"
  reads :: "nat \<Rightarrow> 'img read_answer"

text \<open>
  What the libraries answer. \<open>sfl_create\<close> and \<open>destroyWindow\<close> give what they throw,
  if they throw. \<open>sfl_detect\<close> is the result the session computes for a
  frame, given the results so far. \<open>vsf_create\<close> is the factory; \<open>None\<close> is the null
  pointer. \<open>show_frame k\<close> is lines 90 to 101 on the \<open>k\<close>-th frame of the session: an
  exception from the rendering or the window, or the key \<open>cv::waitKey(1)\<close> returns.
  The accessors \<open>isUpdated()\<close>, \<open>getFrame()\<close> and \<open>getSequence()\<close> and the host's
  array functions of lines 109 to 155 are taken to return.
\<close>

record 'img env =
  float_cast :: "real \<Rightarrow> real"
  sfl_create :: "string \<Rightarrow> real \<Rightarrow> raised option"
  sfl_detect :: "Frame list \<Rightarrow> 'img \<Rightarrow> raised + Frame"
  vsf_create :: "string \<Rightarrow> raised + 'img VideoStream option"
  show_frame :: "nat \<Rightarrow> raised + c_int"
  destroyWindow :: "raised option"

text \<open>The calls the function makes to those libraries, recorded in order.\<close>

datatype 'img call =
    Call_sfl_create string real
  | Call_vsf_create string
  | Call_open
  | Call_read
  | Call_addFrame 'img
  | Call_show_frame nat
  | Call_destroyWindow

text \<open>
  The state of a call of \<open>mexFunction\<close>: the calls made, the reads that answered true,
  the sequence of the tracking session, the local \<open>faceCounter\<close>, the output slot
  \<open>plhs[0]\<close>, and the exception in flight.
\<close>

record 'img state =
  calls :: "'img call list"
  pulled :: "'img pull list"
  sequence :: "Frame list"
  faceCounter :: c_int
  plhs0 :: "mxArray option"
  thrown :: "cpp_exception option"

definition initial :: "'img state" where
  "initial = \<lparr> calls = [], pulled = [], sequence = [], faceCounter = 0, plhs0 = None,
     thrown = None \<rparr>"

declare initial_def [code_unfold]

definition called :: "'img call \<Rightarrow> 'img state \<Rightarrow> 'img state" where
  "called c st = st\<lparr>calls := calls st @ [c]\<rparr>"

definition throw :: "cpp_exception \<Rightarrow> 'img state \<Rightarrow> 'img state" where
  "throw e st = st\<lparr>thrown := Some e\<rparr>"

text \<open>
  Modelled from the spec: the tracking session (\<open>sfl::SequenceFaceLandmarks\<close>, not in
  the source file). A frame pushed into the session gives the result for that frame,
  which the session appends to its sequence; \<open>getSequence\<close> is that sequence.
\<close>

definition addFrame :: "'img env \<Rightarrow> Frame list \<Rightarrow> 'img \<Rightarrow> raised + Frame \<times> Frame list" where
  "addFrame E seq frame =
     (case sfl_detect E seq frame of Inl m \<Rightarrow> Inl m | Inr fr \<Rightarrow> Inr (fr, seq @ [fr]))"

definition getSequence :: "'img state \<Rightarrow> Frame list" where
  "getSequence st = sequence st"

subsection \<open>The main loop (lines 75 to 104)\<close>

text \<open>
  One pass: the test of line 78 and, when \<open>read()\<close> answers true, the body of lines 80
  to 103. The result is the state after the pass and whether the loop goes on. A pull
  that is not updated goes on to the next read (line 80); an updated one is pushed into
  the session (line 83); with \<open>preview\<close> the frame is shown, and a key, if one was
  pressed, leaves the loop (line 102). An exception leaves it too.
\<close>

definition iteration ::
  "'img env \<Rightarrow> params \<Rightarrow> (nat \<Rightarrow> 'img read_answer) \<Rightarrow> 'img state \<Rightarrow> 'img state \<times> bool" where
  "iteration E p rd st =
     (case rd (length (pulled st)) of
        Read_throws x \<Rightarrow> (throw (escaped x) (called Call_read st), False)
      | Read_false \<Rightarrow> (called Call_read st, False)
      | Read_true pl \<Rightarrow>
          (let st1 = (called Call_read st)\<lparr>pulled := pulled st @ [pl]\<rparr> in
           if \<not> isUpdated pl then (st1, True)
           else
             (let frame = getFrame pl;
                  st2 = called (Call_addFrame frame) st1
              in case addFrame E (sequence st2) frame of
                   Inl x \<Rightarrow> (throw (escaped x) st2, False)
                 | Inr (landmarks_frame, seq1) \<Rightarrow>
                     (let st3 = st2\<lparr>sequence := seq1\<rparr> in
                      if preview p then
                        (let st4 = st3\<lparr>faceCounter :=
                                     faceCounter st3 + of_nat (length (faces landmarks_frame))\<rparr>;
                             k = length (sequence st2);
                             st5 = called (Call_show_frame k) st4
                         in case show_frame E k of
                              Inl x \<Rightarrow> (throw (escaped x) st5, False)
                            | Inr key \<Rightarrow>
                                if 0 \<le> sint key then (st5, False) else (st5, True))
                      else (st3, True)))))"

text \<open>
  The loop: passes for as long as they go on. It need not end, and \<open>None\<close> is the run
  that stays in it.
\<close>

partial_function (option) main_loop ::
  "'img env \<Rightarrow> params \<Rightarrow> (nat \<Rightarrow> 'img read_answer) \<Rightarrow> 'img state \<Rightarrow> 'img state option" where
  "main_loop E p rd st =
     (case iteration E p rd st of
        (st1, go_on) \<Rightarrow> if go_on then main_loop E p rd st1 else Some st1)"

declare main_loop.simps [code]


subsection \<open>The body of the try block and the handler\<close>


text \<open>
  Lines 62 to 104, once the arguments are parsed: the session and the source are created,
  the source is opened, and the main loop runs.
\<close>

definition track :: "'img env \<Rightarrow> params \<Rightarrow> 'img state \<Rightarrow> 'img state option" where
  "track E p st0 =
     (let st1 = called (Call_sfl_create (landmarksModelPath p) (frame_scale p)) st0 in
      case sfl_create E (landmarksModelPath p) (frame_scale p) of
        Some m \<Rightarrow> Some (throw (escaped m) st1)
      | None \<Rightarrow>
          (let st2 = called (Call_vsf_create (inputPath p)) st1 in
           case vsf_create E (inputPath p) of
             Inl m \<Rightarrow> Some (throw (escaped m) st2)
           | Inr None \<Rightarrow> Some (throw (runtime_error ''No video source specified!'') st2)
           | Inr (Some vs) \<Rightarrow>
               (let st3 = called Call_open st2 in
                case opens vs of
                  Inl m \<Rightarrow> Some (throw (escaped m) st3)
                | Inr False \<Rightarrow>
                    Some (throw (runtime_error ''Failed to open video source!'') st3)
                | Inr True \<Rightarrow> main_loop E p (reads vs) st3)))"

text \<open>
  Lines 32 to 104: the state in which the main loop is left, or in which an exception is
  in flight.
\<close>

definition tracked :: "'img env \<Rightarrow> mxArg list \<Rightarrow> 'img state option" where
  "tracked E prhs =
     (case parse_arguments (float_cast E) prhs of
        Inl e \<Rightarrow> Some (throw e initial)
      | Inr p \<Rightarrow> track E p initial)"

text \<open>Lines 106 to 158: the output and the cleanup.\<close>

definition emit :: "'img env \<Rightarrow> 'img state \<Rightarrow> 'img state" where
  "emit E st =
     (let (out, seq1) = output_results (getSequence st);
          st1 = st\<lparr>plhs0 := Some out, sequence := seq1\<rparr>;
          st2 = called Call_destroyWindow st1
      in case destroyWindow E of
           Some m \<Rightarrow> throw (escaped m) st2
         | None \<Rightarrow> st2)"

text \<open>Lines 32 to 159: the try block. An exception in flight skips the rest of it.\<close>

definition try_block :: "'img env \<Rightarrow> mxArg list \<Rightarrow> 'img state option" where
  "try_block E prhs =
     (case tracked E prhs of
        None \<Rightarrow> None
      | Some st \<Rightarrow> Some (if thrown st \<noteq> None then st else emit E st))"

text \<open>
  How the call ends. \<open>mexErrMsgIdAndTxt\<close> does not return: the host receives the
  identifier and the formatted message, and none of \<open>plhs\<close>. An exception the handler
  does not match leaves \<open>mexFunction\<close>: the function neither returns nor reports an
  error of its own. Otherwise the function returns and the host takes \<open>plhs[0]\<close>.
\<close>

datatype outcome = Error string string | Uncaught | Returned "mxArray option"

text \<open>The error the handler reports for the message \<open>m\<close> (line 162).\<close>

definition reported :: "string \<Rightarrow> outcome" where
  "reported m = Error ''dlib_find_face_landmarks:parsing'' (''Error: '' @ m)"

text \<open>The handler of line 160, on the state in which the try block is left.\<close>

definition handler :: "'img state \<Rightarrow> outcome" where
  "handler st =
     (case thrown st of
        Some e \<Rightarrow> (case caught e of Some m \<Rightarrow> reported m | None \<Rightarrow> Uncaught)
      | None \<Rightarrow> Returned (plhs0 st))"

text \<open>Lines 30 to 164. \<open>None\<close> is the call that does not return.\<close>

definition mexFunction :: "'img env \<Rightarrow> mxArg list \<Rightarrow> outcome option" where
  "mexFunction E prhs =
     (case try_block E prhs of None \<Rightarrow> None | Some st \<Rightarrow> Some (handler st))"

subsection \<open>Example inputs\<close>

text \<open>Arguments as the host passes them: a string, an \<open>int32\<close>, a \<open>single\<close>, a \<open>double\<close>.\<close>

definition string_arg :: "string \<Rightarrow> mxArg" where
  "string_arg s = \<lparr> classID = mxCHAR_CLASS, toString = Inr s,
     toInt = Inl (std_exception ''MxArray is not a number''), toDouble = Inl (std_exception ''MxArray is not a number''),
     toBool = Inl (std_exception ''MxArray is not a number'') \<rparr>"

definition int32_arg :: "c_int \<Rightarrow> mxArg" where
  "int32_arg v = \<lparr> classID = mxINT32_CLASS, toString = Inl (std_exception ''MxArray is not a string''),
     toInt = Inr v, toDouble = Inr (real_of_int (sint v)), toBool = Inr (v \<noteq> 0) \<rparr>"

definition single_arg :: "c_int \<Rightarrow> mxArg" where
  "single_arg v = \<lparr> classID = mxSINGLE_CLASS, toString = Inl (std_exception ''MxArray is not a string''),
     toInt = Inr v, toDouble = Inr (real_of_int (sint v)), toBool = Inr (v \<noteq> 0) \<rparr>"


text \<open>
  A recorded sequence of three reads, the second of them not updated, and a session that
  finds one face with two landmarks in image 7 and none in any other image.
\<close>

definition example_face :: Face where
  "example_face = \<lparr> landmarks = [\<lparr> pt_x = 10, pt_y = 20 \<rparr>, \<lparr> pt_x = 30, pt_y = 40 \<rparr>],
     bbox = \<lparr> rect_x = 5, rect_y = 6, rect_width = 50, rect_height = 60 \<rparr> \<rparr>"

definition example_detect :: "Frame list \<Rightarrow> nat \<Rightarrow> raised + Frame" where
  "example_detect seq img =
     Inr \<lparr> faces = (if img = 7 then [example_face] else []), width = 640, height = 480 \<rparr>"

definition example_reads :: "nat \<Rightarrow> nat read_answer" where
  "example_reads n =
     (if n = 0 then Read_true (Pull True 7)
      else if n = 1 then Read_true (Pull False 7)
      else if n = 2 then Read_true (Pull True 8)
      else Read_false)"

definition example_stream :: "nat VideoStream" where
  "example_stream = \<lparr> opens = Inr True, reads = example_reads \<rparr>"

definition example_env :: "nat env" where
  "example_env = \<lparr> float_cast = (\<lambda>d. d), sfl_create = (\<lambda>path scale. None),
     sfl_detect = example_detect,
     vsf_create = (\<lambda>path. if path = ''seq.avi'' then Inr (Some example_stream) else Inr None),
     show_frame = (\<lambda>k. Inr (- 1)), destroyWindow = None \<rparr>"

text \<open>The same libraries, with a window that cannot be destroyed at the end.\<close>

definition example_env_no_window :: "nat env" where
  "example_env_no_window =
     example_env\<lparr>destroyWindow := Some (std_exception ''NULL window'')\<rparr>"

text \<open>A source that is never updated and never ends.\<close>

definition endless_stream :: "nat VideoStream" where
  "endless_stream = \<lparr> opens = Inr True, reads = (\<lambda>n. Read_true (Pull False 0)) \<rparr>"

definition endless_env :: "nat env" where
  "endless_env = example_env\<lparr>vsf_create := (\<lambda>path. Inr (Some endless_stream))\<rparr>"



text \<open>The frames passed to the session, read off the recorded calls.\<close>

fun pushed :: "'img call list \<Rightarrow> 'img list" where
  "pushed [] = []"
| "pushed (Call_addFrame f # cs) = f # pushed cs"
| "pushed (c # cs) = pushed cs"

section \<open>Properties\<close>

subsection \<open>The state and the loop\<close>

lemma throw_simps [simp]:
  "thrown (throw e st) = Some e" "calls (throw e st) = calls st"
  "plhs0 (throw e st) = plhs0 st" "pulled (throw e st) = pulled st"
  "sequence (throw e st) = sequence st"
  by (simp_all add: throw_def)

lemma called_simps [simp]:
  "thrown (called c st) = thrown st" "calls (called c st) = calls st @ [c]"
  "plhs0 (called c st) = plhs0 st" "pulled (called c st) = pulled st"
  "sequence (called c st) = sequence st"
  by (simp_all add: called_def)

lemma initial_simps [simp]:
  "thrown initial = None" "calls initial = []" "plhs0 initial = None"
  "pulled initial = []" "sequence initial = []"
  by (simp_all add: initial_def)

lemma main_loop_invariant:
  assumes "main_loop E p rd st = Some st'" and "I st"
    and "\<And>s s' g. I s \<Longrightarrow> iteration E p rd s = (s', g) \<Longrightarrow> I s'"
  shows "I st'"
  using assms
proof (induction rule: main_loop.raw_induct [rotated 1, consumes 1])
  case (1 loop E p rd st st')
  obtain s g where i: "iteration E p rd st = (s, g)"
    by (cases "iteration E p rd st")
  from "1.prems"(2) [OF "1.prems"(1) i] have s: "I s" .
  show ?case
  proof (cases g)
    case True
    with i "1.hyps" have "loop E p rd s = Some st'"
      by simp
    from "1.IH" [OF this s "1.prems"(2)] show ?thesis .
  next
    case False
    with i "1.hyps" s show ?thesis
      by simp
  qed
qed

lemma iteration_thrown:
  assumes "iteration E p rd s = (s', g)"
  shows "thrown s' = thrown s \<and> (g \<longrightarrow> thrown s = None \<longrightarrow> thrown s' = None)
    \<or> (\<exists>x. thrown s' = Some (escaped x) \<and> \<not> g)"
  using assms
  by (auto simp: iteration_def Let_def
      split: read_answer.splits if_splits sum.splits prod.splits)

lemma main_loop_thrown:
  assumes "main_loop E p rd st = Some st'" and "thrown st = None" and "thrown st' = Some e"
  shows "\<exists>m. e = escaped m"
proof -
  have "thrown st' = None \<or> (\<exists>m. thrown st' = Some (escaped m))"
  proof (rule main_loop_invariant [OF assms(1),
        where I = "\<lambda>s. thrown s = None \<or> (\<exists>m. thrown s = Some (escaped m))"])
    show "thrown st = None \<or> (\<exists>m. thrown st = Some (escaped m))"
      using assms(2) by simp
  next
    fix s s' g
    assume "thrown s = None \<or> (\<exists>m. thrown s = Some (escaped m))"
      and "iteration E p rd s = (s', g)"
    with iteration_thrown [of E p rd s s' g]
    show "thrown s' = None \<or> (\<exists>m. thrown s' = Some (escaped m))"
      by auto
  qed
  with assms(3) show ?thesis
    by auto
qed

lemma main_loop_plhs0:
  assumes "main_loop E p rd st = Some st'"
  shows "plhs0 st' = plhs0 st"
proof (rule main_loop_invariant [OF assms, where I = "\<lambda>s. plhs0 s = plhs0 st"])
  show "plhs0 st = plhs0 st" ..
next
  fix s s' g
  assume "plhs0 s = plhs0 st" and "iteration E p rd s = (s', g)"
  then show "plhs0 s' = plhs0 st"
    by (auto simp: iteration_def Let_def
        split: read_answer.splits if_splits sum.splits prod.splits)
qed

lemma main_loop_calls:
  assumes "main_loop E p rd st = Some st'"
  shows "\<exists>cs. calls st' = calls st @ cs"
proof (rule main_loop_invariant [OF assms, where I = "\<lambda>s. \<exists>cs. calls s = calls st @ cs"])
  show "\<exists>cs. calls st = calls st @ cs"
    by simp
next
  fix s s' g
  assume "\<exists>cs. calls s = calls st @ cs" and "iteration E p rd s = (s', g)"
  then show "\<exists>cs. calls s' = calls st @ cs"
    by (auto simp: iteration_def Let_def
        split: read_answer.splits if_splits sum.splits prod.splits)
qed

lemma iteration_ignores_device:
  "iteration E (p\<lparr>device := d, params.width := w, params.height := h\<rparr>) rd st =
     iteration E p rd st"
  by (auto simp: iteration_def Let_def split: read_answer.splits sum.splits prod.splits)

lemma main_loop_ignores_device:
  "main_loop E (p\<lparr>device := d, params.width := w, params.height := h\<rparr>) rd st =
     main_loop E p rd st"
proof -
  have one: "main_loop E q rd st = Some y"
    if "main_loop E q' rd st = Some y" and "\<And>s. iteration E q' rd s = iteration E q rd s"
    for q q' y
    using that
  proof (induction arbitrary: q rule: main_loop.raw_induct [rotated 1, consumes 1])
    case (1 loop E q' rd st st')
    obtain s g where i: "iteration E q' rd st = (s, g)"
      by (cases "iteration E q' rd st")
    with "1.prems" have j: "iteration E q rd st = (s, g)"
      by simp
    show ?case
    proof (cases g)
      case True
      with i "1.hyps" have "loop E q' rd s = Some st'"
        by simp
      from "1.IH" [OF this "1.prems"] True j show ?thesis
        by (subst main_loop.simps) simp
    next
      case False
      with i j "1.hyps" show ?thesis
        by (subst main_loop.simps) simp
    qed
  qed
  let ?p = "p\<lparr>device := d, params.width := w, params.height := h\<rparr>"
  have e: "iteration E ?p rd s = iteration E p rd s" for s
    by (rule iteration_ignores_device)
  show ?thesis
  proof (cases "main_loop E p rd st")
    case None
    show ?thesis
    proof (cases "main_loop E ?p rd st")
      case None
      with \<open>main_loop E p rd st = None\<close> show ?thesis by simp
    next
      case (Some y)
      from one [OF Some, of p] e \<open>main_loop E p rd st = None\<close> show ?thesis by simp
    qed
  next
    case (Some y)
    from one [OF Some, of ?p] e Some show ?thesis by simp
  qed
qed

lemma track_ignores_device:
  "track E (p\<lparr>device := d, params.width := w, params.height := h\<rparr>) st = track E p st"
  by (simp add: track_def main_loop_ignores_device Let_def
      cong: option.case_cong sum.case_cong bool.case_cong)

text \<open>A source that is never updated and never ends keeps the function in the loop.\<close>

lemma main_loop_endless:
  assumes "\<And>n. \<exists>pl. rd n = Read_true pl \<and> \<not> isUpdated pl"
  shows "main_loop E p rd st = None"
proof (rule ccontr)
  assume "main_loop E p rd st \<noteq> None"
  then obtain st' where r: "main_loop E p rd st = Some st'"
    by blast
  from r assms show False
  proof (induction rule: main_loop.raw_induct [rotated 1, consumes 1])
    case (1 loop E p rd st st')
    from "1.prems" obtain pl where "rd (length (pulled st)) = Read_true pl" and "\<not> isUpdated pl"
      by blast
    then have "iteration E p rd st = ((called Call_read st)\<lparr>pulled := pulled st @ [pl]\<rparr>, True)"
      by (simp add: iteration_def)
    with "1.hyps" have "loop E p rd ((called Call_read st)\<lparr>pulled := pulled st @ [pl]\<rparr>) = Some st'"
      by simp
    from "1.IH" [OF this "1.prems"] show False .
  qed
qed

lemma track_thrown:
  assumes "track E p initial = Some st" and "thrown st = Some e"
  shows "(\<exists>m. e = escaped m) \<or> e = runtime_error ''No video source specified!''
     \<or> e = runtime_error ''Failed to open video source!''"
  using assms
  by (auto simp: track_def Let_def split: option.splits sum.splits bool.splits
      dest: main_loop_thrown)

lemma track_plhs0:
  assumes "track E p initial = Some st"
  shows "plhs0 st = None"
  using assms
  by (auto simp: track_def Let_def split: option.splits sum.splits bool.splits
      dest: main_loop_plhs0)

lemma track_calls:
  assumes "track E p initial = Some st"
  shows "calls st = [Call_sfl_create (landmarksModelPath p) (frame_scale p)]
   \<or> take 2 (calls st) =
       [Call_sfl_create (landmarksModelPath p) (frame_scale p), Call_vsf_create (inputPath p)]"
proof -
  have loop: "take 2 (calls st) =
        [Call_sfl_create (landmarksModelPath p) (frame_scale p), Call_vsf_create (inputPath p)]"
    if a: "calls st3 = [Call_sfl_create (landmarksModelPath p) (frame_scale p),
        Call_vsf_create (inputPath p), Call_open]"
      and r: "main_loop E p rd st3 = Some st" for rd st3
  proof -
    obtain cs where "calls st = calls st3 @ cs"
      using main_loop_calls [OF r] by blast
    with a show ?thesis
      by simp
  qed
  from assms show ?thesis
    by (auto simp: track_def Let_def split: option.splits sum.splits bool.splits
        dest: loop [rotated])
qed

lemma emit_thrown:
  "thrown (emit E st) = Some e \<Longrightarrow> thrown st = None \<Longrightarrow> \<exists>m. e = escaped m"
  by (auto simp: emit_def Let_def split: option.splits prod.splits)

lemma emit_calls: "calls (emit E st) = calls st @ [Call_destroyWindow]"
  by (auto simp: emit_def Let_def split: option.splits prod.splits)

lemma emit_plhs0: "plhs0 (emit E st) = Some (fst (output_results (getSequence st)))"
  by (auto simp: emit_def Let_def split: option.splits prod.splits)

subsection \<open>Validation of the arguments\<close>

lemma parse_arguments_Nil:
  "parse_arguments fc [] = Inl (runtime_error ''No parameters specified!'')"
  by (simp add: parse_arguments_def)

lemma parse_arguments_single:
  "parse_arguments fc [a] = Inl (runtime_error ''Invalid number of parameters!'')"
  by (simp add: parse_arguments_def)

lemma try_block_parse_error:
  "parse_arguments (float_cast E) prhs = Inl e \<Longrightarrow> try_block E prhs = Some (throw e initial)"
  by (simp add: try_block_def tracked_def)

lemma mexFunction_parse_error:
  "parse_arguments (float_cast E) prhs = Inl e \<Longrightarrow> caught e = Some m \<Longrightarrow>
     mexFunction E prhs =
       Some (Error ''dlib_find_face_landmarks:parsing'' (''Error: '' @ m))"
  by (simp add: mexFunction_def try_block_parse_error handler_def reported_def)

text \<open>
  Claim C8. A call with no argument fails with "No parameters specified!", and a call with
  one argument fails with "Invalid number of parameters!". In both the call returns to the
  host with that error, no library has been called, and \<open>plhs[0]\<close> has not been
  assigned.
\<close>

theorem C8_missing_arguments:
  "(\<exists>st. try_block E [] = Some st
      \<and> thrown st = Some (runtime_error ''No parameters specified!'')
      \<and> calls st = [] \<and> plhs0 st = None)
   \<and> mexFunction E [] =
       Some (Error ''dlib_find_face_landmarks:parsing'' ''Error: No parameters specified!'')
   \<and> (\<exists>st. try_block E [a] = Some st
      \<and> thrown st = Some (runtime_error ''Invalid number of parameters!'')
      \<and> calls st = [] \<and> plhs0 st = None)
   \<and> mexFunction E [a] =
       Some (Error ''dlib_find_face_landmarks:parsing'' ''Error: Invalid number of parameters!'')"
  using try_block_parse_error [OF parse_arguments_Nil, of E]
    try_block_parse_error [OF parse_arguments_single, of E a]
    mexFunction_parse_error [OF parse_arguments_Nil caught.simps(1), of E]
    mexFunction_parse_error [OF parse_arguments_single caught.simps(1), of E a]
  by simp

lemma parse_arguments_not_string:
  assumes "2 \<le> length prhs" and "\<not> isChar (prhs ! 0)"
  shows "parse_arguments fc prhs = Inl (runtime_error
    ''modelFile must be a string containing the path to the model file!'')"
  using assms by (auto simp: parse_arguments_def Let_def)

text \<open>
  Claim C9. A call with at least two arguments whose first argument is not a string fails
  with "modelFile must be a string containing the path to the model file!", whatever the
  other arguments and the libraries are.
\<close>

theorem C9_model_path_not_a_string:
  assumes "2 \<le> length prhs" and "\<not> isChar (prhs ! 0)"
  shows "(\<exists>st. try_block E prhs = Some st
      \<and> thrown st = Some (runtime_error
           ''modelFile must be a string containing the path to the model file!'')
      \<and> calls st = [] \<and> plhs0 st = None)
    \<and> mexFunction E prhs = Some (Error ''dlib_find_face_landmarks:parsing''
         ''Error: modelFile must be a string containing the path to the model file!'')"
  using try_block_parse_error [OF parse_arguments_not_string [OF assms], of E]
    mexFunction_parse_error [OF parse_arguments_not_string [OF assms] caught.simps(1), of E]
  by simp

theorem C9_model_path_not_a_string_witness:
  "2 \<le> length [int32_arg 3, string_arg ''seq.avi'']
   \<and> \<not> isChar ([int32_arg 3, string_arg ''seq.avi''] ! 0)
   \<and> mexFunction example_env [int32_arg 3, string_arg ''seq.avi''] =
       Some (Error ''dlib_find_face_landmarks:parsing''
         ''Error: modelFile must be a string containing the path to the model file!'')"
proof -
  have l: "2 \<le> length [int32_arg 3, string_arg ''seq.avi'']" by simp
  have c: "\<not> isChar ([int32_arg 3, string_arg ''seq.avi''] ! 0)"
    by (simp add: isChar_def int32_arg_def)
  show ?thesis
    using l c C9_model_path_not_a_string [OF l c, of example_env] by simp
qed

subsection \<open>The class of the second argument\<close>

lemma and_then_Inl: "and_then r f = Inl e \<Longrightarrow> r = Inl e \<or> (\<exists>v. r = Inr v \<and> f v = Inl e)"
  by (cases r) (simp_all add: and_then_def)

lemma and_then_Inr: "and_then r f = Inr q \<Longrightarrow> \<exists>v. r = Inr v \<and> f v = Inr q"
  by (cases r) (simp_all add: and_then_def)

lemma setter_errors:
  "set_landmarksModelPath a q = Inl e \<Longrightarrow> \<exists>m. e = escaped m"
  "set_inputPath a q = Inl e \<Longrightarrow> \<exists>m. e = escaped m"
  "set_frame_scale fc a q = Inl e \<Longrightarrow> \<exists>m. e = escaped m"
  "set_preview a q = Inl e \<Longrightarrow> \<exists>m. e = escaped m"
  "set_device a q = Inl e \<Longrightarrow> \<exists>m. e = escaped m"
  "set_width a q = Inl e \<Longrightarrow> \<exists>m. e = escaped m"
  "set_height a q = Inl e \<Longrightarrow> \<exists>m. e = escaped m"
  by (auto simp: set_landmarksModelPath_def set_inputPath_def set_frame_scale_def
      set_preview_def set_device_def set_width_def set_height_def split: sum.splits)

lemma setter_results:
  "set_landmarksModelPath a q = Inr q' \<Longrightarrow>
     inputPath q' = inputPath q \<and> device q' = device q"
  "set_frame_scale fc a q = Inr q' \<Longrightarrow> inputPath q' = inputPath q \<and> device q' = device q"
  "set_width a q = Inr q' \<Longrightarrow> inputPath q' = inputPath q \<and> device q' = device q"
  "set_height a q = Inr q' \<Longrightarrow> inputPath q' = inputPath q \<and> device q' = device q"
  "set_device a q = Inr q' \<Longrightarrow> inputPath q' = inputPath q \<and> toInt a = Inr (device q')"
  by (auto simp: set_landmarksModelPath_def set_frame_scale_def set_device_def set_width_def
      set_height_def split: sum.splits)

lemma parse_arguments_accepted_class:
  assumes "2 \<le> length prhs" and "isChar (prhs ! 0)"
    and "isChar (prhs ! 1) \<or> isInt32 (prhs ! 1) \<or> isDouble (prhs ! 1)"
    and "parse_arguments fc prhs = Inl e"
  shows "\<exists>m. e = escaped m"
  using assms
  by (auto simp: parse_arguments_def Let_def split: if_splits
      dest!: and_then_Inl setter_errors)

lemma parse_arguments_other_class:
  assumes "2 \<le> length prhs" and "isChar (prhs ! 0)" and "toString (prhs ! 0) = Inr path"
    and "\<not> isChar (prhs ! 1)" and "\<not> isInt32 (prhs ! 1)" and "\<not> isDouble (prhs ! 1)"
  shows "parse_arguments fc prhs = Inl (runtime_error
    ''Second parameter must be either a sequence path or a device id!'')"
  using assms
  by (auto simp: parse_arguments_def Let_def and_then_def set_landmarksModelPath_def)

lemma parse_arguments_live:
  assumes "2 \<le> length prhs" and "isInt32 (prhs ! 1) \<or> isDouble (prhs ! 1)"
    and "parse_arguments fc prhs = Inr q"
  shows "toInt (prhs ! 1) = Inr (device q) \<and> inputPath q = []"
proof -
  from assms(2) have nc: "\<not> isChar (prhs ! 1)"
    by (auto simp: isChar_def isInt32_def isDouble_def)
  from assms(1,3) nc assms(2) obtain q1 q2 q3 q4 where
    "set_landmarksModelPath (prhs ! 0) defaults = Inr q1"
    "set_device (prhs ! 1) q1 = Inr q2"
    "(if 2 < length prhs then set_width (prhs ! 2) q2 else Inr q2) = Inr q3"
    "(if 3 < length prhs then set_height (prhs ! 3) q3 else Inr q3) = Inr q4"
    "(if 4 < length prhs then set_frame_scale fc (prhs ! 4) q4 else Inr q4) = Inr q"
    by (auto simp: parse_arguments_def Let_def split: if_splits dest!: and_then_Inr)
  then show ?thesis
    by (auto simp: defaults_def split: if_splits dest!: setter_results)
qed

lemma try_block_thrown_cases:
  assumes "try_block E prhs = Some st" and "thrown st = Some e"
  shows "(\<exists>m. e = escaped m) \<or> parse_arguments (float_cast E) prhs = Inl e
    \<or> e = runtime_error ''No video source specified!''
    \<or> e = runtime_error ''Failed to open video source!''"
proof -
  from assms(1) obtain st0 where t: "tracked E prhs = Some st0"
    and s: "st = (if thrown st0 \<noteq> None then st0 else emit E st0)"
    by (auto simp: try_block_def split: option.splits)
  show ?thesis
  proof (cases "thrown st0")
    case None
    with s assms(2) show ?thesis
      by (auto dest: emit_thrown)
  next
    case (Some e')
    with s assms(2) have "thrown st0 = Some e"
      by simp
    with t show ?thesis
      by (auto simp: tracked_def split: sum.splits dest: track_thrown)
  qed
qed

text \<open>
  Claim C3, as the code has it. For a call with at least two arguments whose first
  argument is a string that \<open>MxArray\<close> reads, the exception "Second parameter must be
  either a sequence path or a device id!" is thrown if and only if the second argument is
  neither a \<open>char\<close> array, nor an \<open>int32\<close> array, nor a \<open>double\<close> array (line 53 tests
  these two numeric classes and no other). An \<open>int32\<close> or \<open>double\<close> second argument
  selects the live mode: when the arguments parse, \<open>device\<close> is that argument and
  \<open>inputPath\<close> is empty.
\<close>

theorem C3_second_argument_class:
  assumes "2 \<le> length prhs" and "isChar (prhs ! 0)" and "toString (prhs ! 0) = Inr path"
  shows "((\<exists>st. try_block E prhs = Some st \<and> thrown st = Some (runtime_error
              ''Second parameter must be either a sequence path or a device id!''))
          \<longleftrightarrow> \<not> isChar (prhs ! 1) \<and> \<not> isInt32 (prhs ! 1) \<and> \<not> isDouble (prhs ! 1))
    \<and> (isInt32 (prhs ! 1) \<or> isDouble (prhs ! 1) \<longrightarrow>
         (\<forall>q. parse_arguments (float_cast E) prhs = Inr q \<longrightarrow>
            toInt (prhs ! 1) = Inr (device q) \<and> inputPath q = []))"
proof -
  let ?err = "runtime_error ''Second parameter must be either a sequence path or a device id!''"
  have only_if: "\<not> isChar (prhs ! 1) \<and> \<not> isInt32 (prhs ! 1) \<and> \<not> isDouble (prhs ! 1)"
    if "try_block E prhs = Some st" and "thrown st = Some ?err" for st
  proof (rule ccontr)
    from try_block_thrown_cases [OF that]
    have p: "parse_arguments (float_cast E) prhs = Inl ?err"
      by simp
    assume "\<not> (\<not> isChar (prhs ! 1) \<and> \<not> isInt32 (prhs ! 1) \<and> \<not> isDouble (prhs ! 1))"
    then have "isChar (prhs ! 1) \<or> isInt32 (prhs ! 1) \<or> isDouble (prhs ! 1)"
      by blast
    from parse_arguments_accepted_class [OF assms(1,2) this p] show False
      by simp
  qed
  have "if": "\<exists>st. try_block E prhs = Some st \<and> thrown st = Some ?err"
    if "\<not> isChar (prhs ! 1) \<and> \<not> isInt32 (prhs ! 1) \<and> \<not> isDouble (prhs ! 1)"
  proof -
    from that assms have "parse_arguments (float_cast E) prhs = Inl ?err"
      by (simp add: parse_arguments_other_class)
    then show ?thesis
      by (simp add: try_block_parse_error)
  qed
  have live: "toInt (prhs ! 1) = Inr (device q) \<and> inputPath q = []"
    if "isInt32 (prhs ! 1) \<or> isDouble (prhs ! 1)"
      and "parse_arguments (float_cast E) prhs = Inr q" for q
    using parse_arguments_live [OF assms(1) that] .
  from only_if "if" live show ?thesis
    by blast
qed

theorem C3_second_argument_class_witness:
  "(2 \<le> length [string_arg ''model.dat'', single_arg 0]
    \<and> isChar ([string_arg ''model.dat'', single_arg 0] ! 0)
    \<and> toString ([string_arg ''model.dat'', single_arg 0] ! 0) = Inr ''model.dat''
    \<and> \<not> isChar (single_arg 0) \<and> \<not> isInt32 (single_arg 0) \<and> \<not> isDouble (single_arg 0)
    \<and> (\<exists>st. try_block example_env [string_arg ''model.dat'', single_arg 0] = Some st
          \<and> thrown st = Some (runtime_error
               ''Second parameter must be either a sequence path or a device id!'')))
   \<and> (2 \<le> length [string_arg ''model.dat'', int32_arg 3]
    \<and> isChar ([string_arg ''model.dat'', int32_arg 3] ! 0)
    \<and> toString ([string_arg ''model.dat'', int32_arg 3] ! 0) = Inr ''model.dat''
    \<and> isInt32 ([string_arg ''model.dat'', int32_arg 3] ! 1)
    \<and> parse_arguments (float_cast example_env) [string_arg ''model.dat'', int32_arg 3] =
        Inr (defaults\<lparr>landmarksModelPath := ''model.dat'', device := 3\<rparr>)
    \<and> toInt ([string_arg ''model.dat'', int32_arg 3] ! 1) = Inr 3
    \<and> (\<nexists>st. try_block example_env [string_arg ''model.dat'', int32_arg 3] = Some st
          \<and> thrown st = Some (runtime_error
               ''Second parameter must be either a sequence path or a device id!'')))"
proof -
  let ?a = "[string_arg ''model.dat'', single_arg 0]"
  let ?b = "[string_arg ''model.dat'', int32_arg 3]"
  have la: "2 \<le> length ?a" and lb: "2 \<le> length ?b" by simp_all
  have ca: "isChar (?a ! 0)" and cb: "isChar (?b ! 0)"
    by (simp_all add: isChar_def string_arg_def)
  have sa: "toString (?a ! 0) = Inr ''model.dat''" and sb: "toString (?b ! 0) = Inr ''model.dat''"
    by (simp_all add: string_arg_def)
  have n: "\<not> isChar (single_arg 0) \<and> \<not> isInt32 (single_arg 0) \<and> \<not> isDouble (single_arg 0)"
    by (simp add: isChar_def isInt32_def isDouble_def single_arg_def)
  have i: "isInt32 (?b ! 1)" "\<not> isChar (?b ! 1)"
    by (simp_all add: isInt32_def isChar_def int32_arg_def)
  have p: "parse_arguments (float_cast example_env) ?b =
      Inr (defaults\<lparr>landmarksModelPath := ''model.dat'', device := 3\<rparr>)"
    by (simp add: parse_arguments_def Let_def and_then_def isChar_def isInt32_def
        string_arg_def int32_arg_def set_landmarksModelPath_def set_device_def)
  have t: "toInt (?b ! 1) = Inr 3"
    by (simp add: int32_arg_def)
  have ra: "\<exists>st. try_block example_env ?a = Some st
      \<and> thrown st = Some (runtime_error
           ''Second parameter must be either a sequence path or a device id!'')"
    using n C3_second_argument_class [OF la ca sa, of example_env, THEN conjunct1]
    by simp
  have rb: "\<nexists>st. try_block example_env ?b = Some st
      \<and> thrown st = Some (runtime_error
           ''Second parameter must be either a sequence path or a device id!'')"
    using i C3_second_argument_class [OF lb cb sb, of example_env, THEN conjunct1]
    by blast
  from la ca sa n ra lb cb sb i(1) p t rb show ?thesis
    by blast
qed

text \<open>
  A second argument of class \<open>single\<close> is numeric, and the call raises that exception.
\<close>

theorem C3_numeric_single_counterexample:
  "mxIsNumeric (classID (single_arg 0))
   \<and> isChar (string_arg ''model.dat'')
   \<and> try_block example_env [string_arg ''model.dat'', single_arg 0] =
       Some (throw (runtime_error
         ''Second parameter must be either a sequence path or a device id!'') initial)"
  by (simp add: mxIsNumeric_def single_arg_def isChar_def isInt32_def isDouble_def
      string_arg_def try_block_def tracked_def parse_arguments_def and_then_def
      set_landmarksModelPath_def)

subsection \<open>A run on the example\<close>

lemma example_parse:
  "parse_arguments fc [string_arg ''model.dat'', string_arg ''seq.avi''] =
     Inr (defaults\<lparr>landmarksModelPath := ''model.dat'', inputPath := ''seq.avi''\<rparr>)"
  by (simp add: parse_arguments_def Let_def and_then_def isChar_def string_arg_def
      set_landmarksModelPath_def set_inputPath_def)

lemma example_loop:
  assumes "sfl_detect E = example_detect" and "show_frame E = (\<lambda>k. Inr (- 1))"
    and "preview p"
  shows "main_loop E p example_reads
     \<lparr> calls = cs, pulled = [], sequence = [], faceCounter = 0, plhs0 = None, thrown = None \<rparr> =
   Some \<lparr> calls = cs @ [Call_read, Call_addFrame 7, Call_show_frame 0, Call_read, Call_read,
         Call_addFrame 8, Call_show_frame 1, Call_read],
       pulled = [Pull True 7, Pull False 7, Pull True 8],
       sequence = [\<lparr> faces = [example_face], width = 640, height = 480 \<rparr>,
         \<lparr> faces = [], width = 640, height = 480 \<rparr>],
       faceCounter = 1, plhs0 = None, thrown = None \<rparr>"
  by (subst main_loop.simps,
      simp add: assms iteration_def example_reads_def example_detect_def addFrame_def Let_def
        called_def)+

lemma example_env_simps:
  "float_cast example_env = (\<lambda>d. d)"
  "sfl_create example_env = (\<lambda>path scale. None)"
  "sfl_detect example_env = example_detect"
  "vsf_create example_env ''seq.avi'' = Inr (Some example_stream)"
  "show_frame example_env = (\<lambda>k. Inr (- 1))"
  "destroyWindow example_env = None"
  "sfl_create example_env_no_window = (\<lambda>path scale. None)"
  "sfl_detect example_env_no_window = example_detect"
  "vsf_create example_env_no_window ''seq.avi'' = Inr (Some example_stream)"
  "show_frame example_env_no_window = (\<lambda>k. Inr (- 1))"
  "destroyWindow example_env_no_window = Some (std_exception ''NULL window'')"
  by (simp_all add: example_env_no_window_def example_env_def)

lemma example_tracked:
  assumes "E = example_env \<or> E = example_env_no_window"
  shows "tracked E [string_arg ''model.dat'', string_arg ''seq.avi''] =
   Some \<lparr> calls = [Call_sfl_create ''model.dat'' 1, Call_vsf_create ''seq.avi'', Call_open,
         Call_read, Call_addFrame 7, Call_show_frame 0, Call_read, Call_read,
         Call_addFrame 8, Call_show_frame 1, Call_read],
       pulled = [Pull True 7, Pull False 7, Pull True 8],
       sequence = [\<lparr> faces = [example_face], width = 640, height = 480 \<rparr>,
         \<lparr> faces = [], width = 640, height = 480 \<rparr>],
       faceCounter = 1, plhs0 = None, thrown = None \<rparr>"
proof -
  let ?p = "defaults\<lparr>landmarksModelPath := ''model.dat'', inputPath := ''seq.avi''\<rparr>"
  have p: "preview ?p" "landmarksModelPath ?p = ''model.dat''" "inputPath ?p = ''seq.avi''"
    "frame_scale ?p = 1"
    by (simp_all add: defaults_def)
  from assms have e: "sfl_detect E = example_detect" "show_frame E = (\<lambda>k. Inr (- 1))"
    "sfl_create E = (\<lambda>path scale. None)" "vsf_create E ''seq.avi'' = Inr (Some example_stream)"
    by (auto simp: example_env_simps)
  have "tracked E [string_arg ''model.dat'', string_arg ''seq.avi''] =
      main_loop E ?p example_reads
        \<lparr> calls = [Call_sfl_create ''model.dat'' 1, Call_vsf_create ''seq.avi'', Call_open],
          pulled = [], sequence = [], faceCounter = 0, plhs0 = None, thrown = None \<rparr>"
    by (simp add: tracked_def example_parse track_def p e example_stream_def called_def
        initial_def)
  then show ?thesis
    by (simp add: example_loop [OF e(1,2) p(1)])
qed

lemma example_returned:
  "mexFunction example_env [string_arg ''model.dat'', string_arg ''seq.avi''] =
     Some (Returned (Some (fst (output_results
       [\<lparr> faces = [example_face], width = 640, height = 480 \<rparr>,
        \<lparr> faces = [], width = 640, height = 480 \<rparr>]))))"
proof -
  have d: "destroyWindow example_env = None"
    by (simp add: example_env_def)
  show ?thesis
    by (simp add: mexFunction_def try_block_def example_tracked handler_def reported_def emit_def d
        getSequence_def Let_def split_beta called_def)
qed

subsection \<open>Creating the video source\<close>

lemma parse_arguments_live_example:
  "parse_arguments fc [string_arg m, int32_arg a, int32_arg b, int32_arg c] =
     Inr (defaults\<lparr>landmarksModelPath := m, device := a, params.width := b,
       params.height := c\<rparr>)"
  by (simp add: parse_arguments_def Let_def and_then_def isChar_def isInt32_def
      string_arg_def int32_arg_def set_landmarksModelPath_def set_device_def
      set_width_def set_height_def)

lemma tracked_live_example:
  "tracked E [string_arg m, int32_arg a, int32_arg b, int32_arg c] =
     track E (defaults\<lparr>landmarksModelPath := m\<rparr>) initial"
  using track_ignores_device [where E = E and p = "defaults\<lparr>landmarksModelPath := m\<rparr>"
      and d = a and w = b and h = c and st = initial]
  by (simp add: tracked_def parse_arguments_live_example)

text \<open>
  Claim C2, on the code. In live-device mode the parsed \<open>device\<close>, \<open>width\<close> and
  \<open>height\<close> reach no library: two calls that differ only in them run alike. Line 69
  passes \<open>inputPath\<close>, which this mode leaves empty: on the example, the call for
  device 1 at 640 by 480 asks the factory for the source of the empty path.
\<close>

theorem C2_device_not_used:
  "try_block E [string_arg m, int32_arg d, int32_arg w, int32_arg h] =
     try_block E [string_arg m, int32_arg d', int32_arg w', int32_arg h']
   \<and> mexFunction E [string_arg m, int32_arg d, int32_arg w, int32_arg h] =
     mexFunction E [string_arg m, int32_arg d', int32_arg w', int32_arg h']
   \<and> tracked example_env [string_arg ''model.dat'', int32_arg 1, int32_arg 640, int32_arg 480] =
       Some \<lparr> calls = [Call_sfl_create ''model.dat'' 1, Call_vsf_create []], pulled = [],
         sequence = [], faceCounter = 0, plhs0 = None,
         thrown = Some (runtime_error ''No video source specified!'') \<rparr>"
proof -
  have same: "try_block E [string_arg m, int32_arg d, int32_arg w, int32_arg h] =
     try_block E [string_arg m, int32_arg d', int32_arg w', int32_arg h']"
    by (simp add: try_block_def tracked_live_example)
  have ex: "track example_env (defaults\<lparr>landmarksModelPath := ''model.dat''\<rparr>) initial =
      Some \<lparr> calls = [Call_sfl_create ''model.dat'' 1, Call_vsf_create []], pulled = [],
         sequence = [], faceCounter = 0, plhs0 = None,
         thrown = Some (runtime_error ''No video source specified!'') \<rparr>"
    by (simp add: track_def Let_def example_env_def defaults_def called_def throw_def
        initial_def)
  show ?thesis
    by (simp add: same mexFunction_def) (simp add: tracked_live_example ex)
qed

lemma tracked_calls:
  assumes "parse_arguments (float_cast E) prhs = Inr p" and "tracked E prhs = Some st"
  shows "calls st = [Call_sfl_create (landmarksModelPath p) (frame_scale p)]
   \<or> take 2 (calls st) =
       [Call_sfl_create (landmarksModelPath p) (frame_scale p), Call_vsf_create (inputPath p)]"
  using assms track_calls [of E p st] by (simp add: tracked_def)

text \<open>
  Claim C10. When the arguments parse, the session is created and the factory answers the
  null pointer, the call fails with "No video source specified!": the session and the
  factory are the only libraries called, the source is never opened, and \<open>plhs[0]\<close> is
  not assigned.
\<close>

theorem C10_null_video_source:
  assumes "parse_arguments (float_cast E) prhs = Inr p"
    and "sfl_create E (landmarksModelPath p) (frame_scale p) = None"
    and "vsf_create E (inputPath p) = Inr None"
  shows "mexFunction E prhs = Some
           (Error ''dlib_find_face_landmarks:parsing'' ''Error: No video source specified!'')
    \<and> (\<exists>st. try_block E prhs = Some st
         \<and> thrown st = Some (runtime_error ''No video source specified!'')
         \<and> calls st = [Call_sfl_create (landmarksModelPath p) (frame_scale p),
              Call_vsf_create (inputPath p)]
         \<and> Call_open \<notin> set (calls st)
         \<and> plhs0 st = None)"
proof -
  have t: "try_block E prhs = Some (throw (runtime_error ''No video source specified!'')
      (called (Call_vsf_create (inputPath p))
        (called (Call_sfl_create (landmarksModelPath p) (frame_scale p)) initial)))"
    using assms by (simp add: try_block_def tracked_def track_def)
  show ?thesis
    by (simp add: t mexFunction_def handler_def reported_def)
qed

theorem C10_null_video_source_witness:
  "parse_arguments (float_cast example_env) [string_arg ''model.dat'', string_arg ''none.avi'']
     = Inr (defaults\<lparr>landmarksModelPath := ''model.dat'', inputPath := ''none.avi''\<rparr>)
   \<and> sfl_create example_env ''model.dat'' 1 = None
   \<and> vsf_create example_env ''none.avi'' = Inr None
   \<and> mexFunction example_env [string_arg ''model.dat'', string_arg ''none.avi''] = Some
       (Error ''dlib_find_face_landmarks:parsing'' ''Error: No video source specified!'')
   \<and> (\<exists>st. try_block example_env [string_arg ''model.dat'', string_arg ''none.avi''] = Some st
        \<and> calls st = [Call_sfl_create ''model.dat'' 1, Call_vsf_create ''none.avi''])"
proof -
  let ?p = "defaults\<lparr>landmarksModelPath := ''model.dat'', inputPath := ''none.avi''\<rparr>"
  have p: "parse_arguments (float_cast example_env)
      [string_arg ''model.dat'', string_arg ''none.avi''] = Inr ?p"
    by (simp add: parse_arguments_def Let_def and_then_def isChar_def string_arg_def
        set_landmarksModelPath_def set_inputPath_def)
  have s: "sfl_create example_env (landmarksModelPath ?p) (frame_scale ?p) = None"
    by (simp add: example_env_def)
  have v: "vsf_create example_env (inputPath ?p) = Inr None"
    by (simp add: example_env_def)
  have f: "landmarksModelPath ?p = ''model.dat''" "frame_scale ?p = 1"
    "inputPath ?p = ''none.avi''"
    by (simp_all add: defaults_def)
  from C10_null_video_source [OF p s v]
  have "mexFunction example_env [string_arg ''model.dat'', string_arg ''none.avi''] = Some
       (Error ''dlib_find_face_landmarks:parsing'' ''Error: No video source specified!'')"
    and "\<exists>st. try_block example_env [string_arg ''model.dat'', string_arg ''none.avi''] = Some st
        \<and> calls st = [Call_sfl_create ''model.dat'' 1, Call_vsf_create ''none.avi'']"
    unfolding f by blast+
  with p s v show ?thesis
    unfolding f by blast
qed

subsection \<open>Struct arrays and the conversion loops\<close>

lemma pushed_append: "pushed (cs @ ds) = pushed cs @ pushed ds"
  by (induction cs rule: pushed.induct) simp_all

lemma emit_keeps:
  "pulled (emit E st) = pulled st" "pushed (calls (emit E st)) = pushed (calls st)"
  by (auto simp: emit_def Let_def pushed_append split: option.splits prod.splits)

lemma mxSetField_shape [simp]:
  "mxFieldNames (mxSetField a i n v) = mxFieldNames a"
  "mxGetNumberOfElements (mxSetField a i n v) = mxGetNumberOfElements a"
  "mxGetDimensions (mxSetField a i n v) = mxGetDimensions a"
  by (cases a; simp)+

lemma mxGetField_mxSetField:
  "mxGetField (mxSetField a i n v) k m =
     (if i < mxGetNumberOfElements a \<and> n \<in> set (mxFieldNames a) \<and> k = i \<and> m = n
      then Some v else mxGetField a k m)"
  by (cases a) (auto simp: update_conv' nth_list_update)

lemma mxCreateStructArray_row [simp]:
  "mxFieldNames (mxCreateStructArray 2 [Suc 0, n] 2 face_fields) = face_fields"
  "mxFieldNames (mxCreateStructArray 2 [Suc 0, n] 3 frame_fields) = frame_fields"
  "mxGetNumberOfElements (mxCreateStructArray 2 [Suc 0, n] k fs) = n"
  "mxGetDimensions (mxCreateStructArray 2 [Suc 0, n] k fs) = [Suc 0, n]"
  "mxGetField (mxCreateStructArray 2 [Suc 0, n] k fs) i m = None"
  by (simp_all add: mxCreateStructArray_def face_fields_def frame_fields_def)

lemma fst_convert_face:
  "fst (convert_face arr j face) =
     mxSetField (mxSetField arr j ''landmarks''
         (MxArray_Mat (Mat_add (Mat_of_points (landmarks face)) 1)))
       j ''bbox'' (MxArray_Rect (bbox face))"
  by (simp add: convert_face_def Let_def face_fields_def)

lemma fst_faces_loop_Cons [simp]:
  "fst (faces_loop j (face # rest) arr) =
     fst (faces_loop (Suc j) rest (fst (convert_face arr j face)))"
  by (simp add: Let_def split_beta)

declare faces_loop.simps(2) [simp del]

lemma faces_loop_shape [simp]:
  "mxFieldNames (fst (faces_loop j fcs arr)) = mxFieldNames arr"
  "mxGetNumberOfElements (fst (faces_loop j fcs arr)) = mxGetNumberOfElements arr"
  "mxGetDimensions (fst (faces_loop j fcs arr)) = mxGetDimensions arr"
  by (induction fcs arbitrary: j arr; simp add: fst_convert_face)+

lemma faces_loop_below:
  "k < j \<Longrightarrow> mxGetField (fst (faces_loop j fcs arr)) k m = mxGetField arr k m"
  by (induction fcs arbitrary: j arr) (simp_all add: fst_convert_face mxGetField_mxSetField)

lemma faces_loop_landmarks:
  assumes "mxFieldNames arr = face_fields" and "j \<le> k" and "k < j + length fcs"
    and "k < mxGetNumberOfElements arr"
  shows "mxGetField (fst (faces_loop j fcs arr)) k ''landmarks'' =
    Some (MxArray_Mat (Mat_add (Mat_of_points (landmarks (fcs ! (k - j)))) 1))"
  using assms
proof (induction fcs arbitrary: j arr)
  case Nil
  then show ?case by simp
next
  case (Cons face rest)
  show ?case
  proof (cases "k = j")
    case True
    with Cons.prems show ?thesis
      by (simp add: faces_loop_below fst_convert_face mxGetField_mxSetField face_fields_def)
  next
    case False
    with Cons.prems have "Suc j \<le> k" and "k < Suc j + length rest" by simp_all
    with Cons.prems False Cons.IH [of "fst (convert_face arr j face)" "Suc j"]
    show ?thesis
      by (simp add: fst_convert_face nth_Cons' Suc_diff_le)
  qed
qed

lemma faces_loop_bbox:
  assumes "mxFieldNames arr = face_fields" and "j \<le> k" and "k < j + length fcs"
    and "k < mxGetNumberOfElements arr"
  shows "mxGetField (fst (faces_loop j fcs arr)) k ''bbox'' =
    Some (MxArray_Rect (bbox (fcs ! (k - j))))"
  using assms
proof (induction fcs arbitrary: j arr)
  case Nil
  then show ?case by simp
next
  case (Cons face rest)
  show ?case
  proof (cases "k = j")
    case True
    with Cons.prems show ?thesis
      by (simp add: faces_loop_below fst_convert_face mxGetField_mxSetField face_fields_def)
  next
    case False
    with Cons.prems have "Suc j \<le> k" and "k < Suc j + length rest" by simp_all
    with Cons.prems False Cons.IH [of "fst (convert_face arr j face)" "Suc j"]
    show ?thesis
      by (simp add: fst_convert_face nth_Cons' Suc_diff_le)
  qed
qed

lemma fst_convert_frame:
  "fst (convert_frame arr i frame) =
     (if faces frame = []
      then mxSetField (mxSetField arr i ''width'' (MxArray_int (Frame.width frame)))
             i ''height'' (MxArray_int (Frame.height frame))
      else mxSetField
             (mxSetField (mxSetField arr i ''width'' (MxArray_int (Frame.width frame)))
               i ''height'' (MxArray_int (Frame.height frame)))
             i ''faces''
             (fst (faces_loop 0 (faces frame)
                (mxCreateStructArray 2 [1, length (faces frame)] 2 face_fields))))"
  by (simp add: convert_frame_def Let_def frame_fields_def split_beta)

lemma fst_frames_loop_Cons [simp]:
  "fst (frames_loop i (frame # rest) arr) =
     fst (frames_loop (Suc i) rest (fst (convert_frame arr i frame)))"
  by (simp add: Let_def split_beta)

declare frames_loop.simps(2) [simp del]

lemma convert_frame_shape [simp]:
  "mxFieldNames (fst (convert_frame arr i frame)) = mxFieldNames arr"
  "mxGetNumberOfElements (fst (convert_frame arr i frame)) = mxGetNumberOfElements arr"
  "mxGetDimensions (fst (convert_frame arr i frame)) = mxGetDimensions arr"
  by (simp_all add: fst_convert_frame)

lemma frames_loop_shape [simp]:
  "mxFieldNames (fst (frames_loop i frs arr)) = mxFieldNames arr"
  "mxGetNumberOfElements (fst (frames_loop i frs arr)) = mxGetNumberOfElements arr"
  "mxGetDimensions (fst (frames_loop i frs arr)) = mxGetDimensions arr"
  by (induction frs arbitrary: i arr; simp)+

lemma convert_frame_other:
  "k \<noteq> i \<Longrightarrow> mxGetField (fst (convert_frame arr i frame)) k m = mxGetField arr k m"
  by (simp add: fst_convert_frame mxGetField_mxSetField)

lemma convert_frame_at:
  assumes "mxFieldNames arr = frame_fields" and "i < mxGetNumberOfElements arr"
  shows "mxGetField (fst (convert_frame arr i frame)) i ''width'' =
           Some (MxArray_int (Frame.width frame))"
    and "mxGetField (fst (convert_frame arr i frame)) i ''height'' =
           Some (MxArray_int (Frame.height frame))"
    and "mxGetField (fst (convert_frame arr i frame)) i ''faces'' =
           (if faces frame = [] then mxGetField arr i ''faces''
            else Some (fst (faces_loop 0 (faces frame)
              (mxCreateStructArray 2 [1, length (faces frame)] 2 face_fields))))"
  using assms by (simp_all add: fst_convert_frame mxGetField_mxSetField frame_fields_def)

lemma frames_loop_below:
  "k < i \<Longrightarrow> mxGetField (fst (frames_loop i frs arr)) k m = mxGetField arr k m"
  by (induction frs arbitrary: i arr) (simp_all add: convert_frame_other)

lemma frames_loop_at:
  assumes "mxFieldNames arr = frame_fields" and "i \<le> k" and "k < i + length frs"
    and "k < mxGetNumberOfElements arr"
  shows "mxGetField (fst (frames_loop i frs arr)) k ''width'' =
           Some (MxArray_int (Frame.width (frs ! (k - i))))
    \<and> mxGetField (fst (frames_loop i frs arr)) k ''height'' =
           Some (MxArray_int (Frame.height (frs ! (k - i))))
    \<and> mxGetField (fst (frames_loop i frs arr)) k ''faces'' =
           (if faces (frs ! (k - i)) = [] then mxGetField arr k ''faces''
            else Some (fst (faces_loop 0 (faces (frs ! (k - i)))
              (mxCreateStructArray 2 [1, length (faces (frs ! (k - i)))] 2 face_fields))))"
  using assms
proof (induction frs arbitrary: i arr)
  case Nil
  then show ?case by simp
next
  case (Cons frame rest)
  show ?case
  proof (cases "k = i")
    case True
    with Cons.prems show ?thesis
      by (simp add: frames_loop_below convert_frame_at)
  next
    case False
    with Cons.prems have "Suc i \<le> k" and "k < Suc i + length rest" by simp_all
    with Cons.prems False Cons.IH [of "fst (convert_frame arr i frame)" "Suc i"]
    show ?thesis
      by (simp add: nth_Cons' Suc_diff_le convert_frame_other)
  qed
qed

lemma output_results_shape:
  "mxGetDimensions (fst (output_results frs)) = [1, length frs]"
  "mxFieldNames (fst (output_results frs)) = [''faces'', ''width'', ''height'']"
  "mxGetNumberOfElements (fst (output_results frs)) = length frs"
  by (simp_all add: output_results_def) (simp add: frame_fields_def)

lemma output_results_frame:
  assumes "i < length frs"
  shows "mxGetField (fst (output_results frs)) i ''width'' =
           Some (MxArray_int (Frame.width (frs ! i)))"
    and "mxGetField (fst (output_results frs)) i ''height'' =
           Some (MxArray_int (Frame.height (frs ! i)))"
    and "mxGetField (fst (output_results frs)) i ''faces'' =
           (if faces (frs ! i) = [] then None
            else Some (fst (faces_loop 0 (faces (frs ! i))
              (mxCreateStructArray 2 [1, length (faces (frs ! i))] 2 face_fields))))"
  using assms
    frames_loop_at [of "mxCreateStructArray 2 [1, length frs] 3 frame_fields" 0 i frs]
  by (simp_all add: output_results_def)

lemma Mat_add_points:
  "Mat_add (Mat_of_points ps) 1 = map (\<lambda>p. [pt_x p + 1, pt_y p + 1]) ps"
  by (simp add: Mat_add_def Mat_of_points_def)

lemma output_results_face:
  assumes "i < length frs" and "j < length (faces (frs ! i))"
  shows "\<exists>fa. mxGetField (fst (output_results frs)) i ''faces'' = Some fa
    \<and> mxGetField fa j ''landmarks'' =
        Some (mxNumeric (map (\<lambda>p. [pt_x p + 1, pt_y p + 1]) (landmarks (faces (frs ! i) ! j))))
    \<and> mxGetField fa j ''bbox'' =
        Some (mxNumeric [[rect_x (bbox (faces (frs ! i) ! j)), rect_y (bbox (faces (frs ! i) ! j)),
          rect_width (bbox (faces (frs ! i) ! j)), rect_height (bbox (faces (frs ! i) ! j))]])"
proof -
  let ?fcs = "faces (frs ! i)"
  let ?fa = "fst (faces_loop 0 ?fcs (mxCreateStructArray 2 [1, length ?fcs] 2 face_fields))"
  from assms(2) have ne: "?fcs \<noteq> []" by auto
  with assms(1) have f: "mxGetField (fst (output_results frs)) i ''faces'' = Some ?fa"
    by (simp add: output_results_frame)
  have l: "mxGetField ?fa j ''landmarks'' =
      Some (mxNumeric (map (\<lambda>p. [pt_x p + 1, pt_y p + 1]) (landmarks (?fcs ! j))))"
    using assms(2)
      faces_loop_landmarks [of "mxCreateStructArray 2 [1, length ?fcs] 2 face_fields" 0 j ?fcs]
    by (simp add: Mat_add_points MxArray_Mat_def)
  have b: "mxGetField ?fa j ''bbox'' =
      Some (mxNumeric [[rect_x (bbox (?fcs ! j)), rect_y (bbox (?fcs ! j)),
          rect_width (bbox (?fcs ! j)), rect_height (bbox (?fcs ! j))]])"
    using assms(2)
      faces_loop_bbox [of "mxCreateStructArray 2 [1, length ?fcs] 2 face_fields" 0 j ?fcs]
    by (simp add: MxArray_Rect_def)
  from f l b show ?thesis by blast
qed

lemma example_output:
  "fst (output_results [\<lparr> faces = [example_face], width = 640, height = 480 \<rparr>,
         \<lparr> faces = [], width = 640, height = 480 \<rparr>]) =
     mxStruct [1, 2] [''faces'', ''width'', ''height'']
       [[(''width'', mxNumeric [[640]]), (''height'', mxNumeric [[480]]),
         (''faces'', mxStruct [1, 1] [''landmarks'', ''bbox'']
            [[(''landmarks'', mxNumeric [[11, 21], [31, 41]]),
              (''bbox'', mxNumeric [[5, 6, 50, 60]])]])],
        [(''width'', mxNumeric [[640]]), (''height'', mxNumeric [[480]])]]"
  by (simp add: output_results_def fst_convert_frame fst_convert_face mxCreateStructArray_def
      frame_fields_def face_fields_def example_face_def MxArray_int_def MxArray_Mat_def
      MxArray_Rect_def Mat_add_def Mat_of_points_def)

text \<open>
  The addition of line 143 is that of \<open>int\<close>: the signed value grows by one unless the
  coordinate is the largest \<open>int\<close>.
\<close>

lemma c_int_plus_one_signed:
  fixes v :: c_int
  assumes "sint v < 2147483647"
  shows "sint (v + 1) = sint v + 1"
proof -
  have lo: "- (2 ^ 31) \<le> sint v"
    using sint_ge [of v] by simp
  have "sint (v + 1) = signed_take_bit 31 (sint v + 1)"
    by (simp add: sint_word_ariths)
  also have "\<dots> = sint v + 1"
    using lo assms by (intro signed_take_bit_int_eq_self) simp_all
  finally show ?thesis .
qed


lemma mexFunction_Returned:
  assumes "mexFunction E prhs = Some (Returned r)"
  shows "\<exists>st0 st. tracked E prhs = Some st0 \<and> thrown st0 = None
    \<and> try_block E prhs = Some st \<and> thrown st = None
    \<and> pulled st = pulled st0 \<and> pushed (calls st) = pushed (calls st0)
    \<and> r = Some (fst (output_results (getSequence st0)))"
proof -
  from assms obtain st where t: "try_block E prhs = Some st" and h: "handler st = Returned r"
    by (auto simp: mexFunction_def split: option.splits)
  from h have n: "thrown st = None" and r: "r = plhs0 st"
    by (auto simp: handler_def reported_def split: option.splits)
  from t obtain st0 where t0: "tracked E prhs = Some st0"
    and s: "st = (if thrown st0 \<noteq> None then st0 else emit E st0)"
    by (auto simp: try_block_def split: option.splits)
  from s n have n0: "thrown st0 = None" and e: "st = emit E st0"
    by (auto split: if_splits)
  from e have "pulled st = pulled st0" and "pushed (calls st) = pushed (calls st0)"
    by (simp_all add: emit_keeps)
  with t t0 n n0 r e show ?thesis
    by (simp add: emit_plhs0)
qed

subsection \<open>The pulls and the session\<close>

lemma main_loop_pushed:
  assumes "main_loop E p rd st = Some st'"
    and "pushed (calls st) = map getFrame (filter isUpdated (pulled st))"
  shows "pushed (calls st') = map getFrame (filter isUpdated (pulled st'))"
proof (rule main_loop_invariant [OF assms(1),
      where I = "\<lambda>s. pushed (calls s) = map getFrame (filter isUpdated (pulled s))"])
  show "pushed (calls st) = map getFrame (filter isUpdated (pulled st))"
    by (rule assms(2))
next
  fix s s' g
  assume "pushed (calls s) = map getFrame (filter isUpdated (pulled s))"
    and "iteration E p rd s = (s', g)"
  then show "pushed (calls s') = map getFrame (filter isUpdated (pulled s'))"
    by (auto simp: iteration_def Let_def pushed_append
        split: read_answer.splits if_splits sum.splits prod.splits)
qed

lemma addFrame_length:
  "addFrame E seq frame = Inr (fr, seq1) \<Longrightarrow> length seq1 = Suc (length seq)"
  by (auto simp: addFrame_def split: sum.splits)

lemma main_loop_sequence:
  assumes "main_loop E p rd st = Some st'"
    and "length (sequence st) = length (filter isUpdated (pulled st))"
    and "thrown st' = None"
  shows "length (sequence st') = length (filter isUpdated (pulled st'))"
proof -
  have "thrown st' = None \<longrightarrow>
      length (sequence st') = length (filter isUpdated (pulled st'))"
  proof (rule main_loop_invariant [OF assms(1),
        where I = "\<lambda>s. thrown s = None \<longrightarrow>
          length (sequence s) = length (filter isUpdated (pulled s))"])
    show "thrown st = None \<longrightarrow>
        length (sequence st) = length (filter isUpdated (pulled st))"
      using assms(2) by simp
  next
    fix s s' g
    assume "thrown s = None \<longrightarrow> length (sequence s) = length (filter isUpdated (pulled s))"
      and "iteration E p rd s = (s', g)"
    then show "thrown s' = None \<longrightarrow>
        length (sequence s') = length (filter isUpdated (pulled s'))"
      by (auto simp: iteration_def Let_def
          split: read_answer.splits if_splits sum.splits prod.splits
          dest: addFrame_length)
  qed
  with assms(3) show ?thesis
    by simp
qed

lemma main_loop_pulled:
  assumes "main_loop E p rd st = Some st'"
    and "\<forall>k < length (pulled st). rd k = Read_true (pulled st ! k)"
  shows "\<forall>k < length (pulled st'). rd k = Read_true (pulled st' ! k)"
proof (rule main_loop_invariant [OF assms(1),
      where I = "\<lambda>s. \<forall>k < length (pulled s). rd k = Read_true (pulled s ! k)"])
  show "\<forall>k < length (pulled st). rd k = Read_true (pulled st ! k)"
    by (rule assms(2))
next
  fix s s' g
  assume "\<forall>k < length (pulled s). rd k = Read_true (pulled s ! k)"
    and "iteration E p rd s = (s', g)"
  then show "\<forall>k < length (pulled s'). rd k = Read_true (pulled s' ! k)"
    by (auto simp: iteration_def Let_def nth_append less_Suc_eq
        split: read_answer.splits if_splits sum.splits prod.splits)
qed

lemma tracked_pushed:
  assumes "tracked E prhs = Some st"
  shows "pushed (calls st) = map getFrame (filter isUpdated (pulled st))"
proof (cases "parse_arguments (float_cast E) prhs")
  case (Inl e)
  with assms show ?thesis by (auto simp: tracked_def)
next
  case (Inr p)
  with assms have "track E p initial = Some st"
    by (simp add: tracked_def)
  then show ?thesis
    by (auto simp: track_def Let_def split: option.splits sum.splits bool.splits
        elim!: main_loop_pushed)
qed

lemma tracked_sequence:
  assumes "tracked E prhs = Some st" and "thrown st = None"
  shows "length (getSequence st) = length (filter isUpdated (pulled st))"
proof (cases "parse_arguments (float_cast E) prhs")
  case (Inl e)
  with assms show ?thesis by (auto simp: tracked_def)
next
  case (Inr p)
  with assms have "track E p initial = Some st"
    by (simp add: tracked_def)
  with assms(2) show ?thesis
    by (auto simp: track_def getSequence_def Let_def
        split: option.splits sum.splits bool.splits
        elim!: main_loop_sequence)
qed

lemma try_block_pushed:
  assumes "try_block E prhs = Some st"
  shows "pushed (calls st) = map getFrame (filter isUpdated (pulled st))"
proof -
  from assms obtain st0 where t: "tracked E prhs = Some st0"
    and s: "st = (if thrown st0 \<noteq> None then st0 else emit E st0)"
    by (auto simp: try_block_def split: option.splits)
  from tracked_pushed [OF t] s show ?thesis
    by (simp add: emit_keeps)
qed

text \<open>
  Claim C5. In every run that leaves the try block, the frames pushed into the session
  are the frames of the updated pulls, in order: a pull that is not updated is not
  pushed. When the call returns, the output has as many entries as there were updated
  pulls, which can be fewer than the pulls.
\<close>

theorem C5_pulls_not_updated_are_skipped:
  assumes "try_block E prhs = Some st"
  shows "pushed (calls st) = map getFrame (filter isUpdated (pulled st))
    \<and> (\<forall>r. mexFunction E prhs = Some (Returned r) \<longrightarrow>
         (\<exists>out. r = Some out \<and>
            mxGetNumberOfElements out = length (filter isUpdated (pulled st))))"
proof (intro conjI allI impI)
  show "pushed (calls st) = map getFrame (filter isUpdated (pulled st))"
    by (rule try_block_pushed [OF assms])
next
  fix r
  assume "mexFunction E prhs = Some (Returned r)"
  from mexFunction_Returned [OF this] obtain st0 st1 where
    t: "tracked E prhs = Some st0" "thrown st0 = None"
    and b: "try_block E prhs = Some st1" "pulled st1 = pulled st0"
    and r: "r = Some (fst (output_results (getSequence st0)))"
    by blast
  from b(1) assms have "st1 = st" by simp
  with tracked_sequence [OF t] b(2) r
  show "\<exists>out. r = Some out \<and>
      mxGetNumberOfElements out = length (filter isUpdated (pulled st))"
    by (simp add: output_results_shape)
qed

lemma example_try_block:
  "\<exists>st. try_block example_env [string_arg ''model.dat'', string_arg ''seq.avi''] = Some st
     \<and> pulled st = [Pull True 7, Pull False 7, Pull True 8]
     \<and> pushed (calls st) = [7, 8]"
  by (simp add: try_block_def example_tracked emit_keeps)

theorem C5_pulls_not_updated_are_skipped_witness:
  "\<exists>st. try_block example_env [string_arg ''model.dat'', string_arg ''seq.avi''] = Some st
     \<and> pulled st = [Pull True 7, Pull False 7, Pull True 8]
     \<and> pushed (calls st) = [7, 8]
     \<and> (\<exists>out. mexFunction example_env [string_arg ''model.dat'', string_arg ''seq.avi''] =
           Some (Returned (Some out))
         \<and> mxGetNumberOfElements out = 2)"
proof -
  let ?prhs = "[string_arg ''model.dat'', string_arg ''seq.avi'']"
  from example_try_block obtain st where t: "try_block example_env ?prhs = Some st"
    and p: "pulled st = [Pull True 7, Pull False 7, Pull True 8]"
    and c: "pushed (calls st) = [7, 8]"
    by blast
  from C5_pulls_not_updated_are_skipped [OF t] example_returned p
  have "\<exists>out. mexFunction example_env ?prhs = Some (Returned (Some out))
      \<and> mxGetNumberOfElements out = 2"
    by simp
  with t p c show ?thesis
    by blast
qed

subsection \<open>The coordinates in the output\<close>

text \<open>
  Claim C6. When the call returns, face \<open>j\<close> of frame \<open>i\<close> of the session's sequence is
  element \<open>j\<close> of the field \<open>faces\<close> of element \<open>i\<close> of the output, and its field
  \<open>landmarks\<close> has one row for each landmark: the landmark's \<open>x\<close> plus 1 and its
  \<open>y\<close> plus 1, in \<open>int\<close> arithmetic.
\<close>

theorem C6_landmarks_shifted_by_one:
  assumes "mexFunction E prhs = Some (Returned r)"
    and "tracked E prhs = Some st"
    and "i < length (getSequence st)"
    and "j < length (faces (getSequence st ! i))"
  shows "\<exists>out fa. r = Some out
    \<and> mxGetField out i ''faces'' = Some fa
    \<and> mxGetField fa j ''landmarks'' =
        Some (mxNumeric (map (\<lambda>p. [pt_x p + 1, pt_y p + 1])
          (landmarks (faces (getSequence st ! i) ! j))))"
proof -
  from mexFunction_Returned [OF assms(1)] assms(2)
  have "r = Some (fst (output_results (getSequence st)))"
    by auto
  with output_results_face [OF assms(3,4)] show ?thesis
    by blast
qed

theorem C6_landmarks_shifted_by_one_witness:
  "\<exists>st out fa.
     mexFunction example_env [string_arg ''model.dat'', string_arg ''seq.avi''] =
       Some (Returned (Some out))
   \<and> tracked example_env [string_arg ''model.dat'', string_arg ''seq.avi''] = Some st
   \<and> 0 < length (getSequence st)
   \<and> 0 < length (faces (getSequence st ! 0))
   \<and> landmarks (faces (getSequence st ! 0) ! 0) =
       [\<lparr> pt_x = 10, pt_y = 20 \<rparr>, \<lparr> pt_x = 30, pt_y = 40 \<rparr>]
   \<and> mxGetField out 0 ''faces'' = Some fa
   \<and> mxGetField fa 0 ''landmarks'' = Some (mxNumeric [[11, 21], [31, 41]])"
proof -
  let ?prhs = "[string_arg ''model.dat'', string_arg ''seq.avi'']"
  obtain st where t: "tracked example_env ?prhs = Some st"
    and s: "getSequence st = [\<lparr> faces = [example_face], width = 640, height = 480 \<rparr>,
        \<lparr> faces = [], width = 640, height = 480 \<rparr>]"
    by (simp add: example_tracked getSequence_def)
  have i: "0 < length (getSequence st)" and j: "0 < length (faces (getSequence st ! 0))"
    by (simp_all add: s)
  have l: "landmarks (faces (getSequence st ! 0) ! 0) =
       [\<lparr> pt_x = 10, pt_y = 20 \<rparr>, \<lparr> pt_x = 30, pt_y = 40 \<rparr>]"
    by (simp add: s example_face_def)
  from C6_landmarks_shifted_by_one [OF example_returned t i j] obtain out fa where
    "mexFunction example_env ?prhs = Some (Returned (Some out))"
    "mxGetField out 0 ''faces'' = Some fa"
    "mxGetField fa 0 ''landmarks'' = Some (mxNumeric [[11, 21], [31, 41]])"
    by (auto simp: l example_returned)
  with t i j l show ?thesis
    by blast
qed

text \<open>
  Claim C1, on the code. The session finds a face with the bounding box \<open>(5, 6, 50, 60)\<close>;
  the field \<open>bbox\<close> of the output holds \<open>[5, 6, 50, 60]\<close>, the box as it is, and not
  \<open>[6, 7, 50, 60]\<close>: line 153 writes \<open>face.bbox\<close>, not the shifted matrix of line 149.
\<close>

theorem C1_bbox_written_unshifted:
  "\<exists>st out fa.
     mexFunction example_env [string_arg ''model.dat'', string_arg ''seq.avi''] =
       Some (Returned (Some out))
   \<and> tracked example_env [string_arg ''model.dat'', string_arg ''seq.avi''] = Some st
   \<and> bbox (faces (getSequence st ! 0) ! 0) =
       \<lparr> rect_x = 5, rect_y = 6, rect_width = 50, rect_height = 60 \<rparr>
   \<and> mxGetField out 0 ''faces'' = Some fa
   \<and> mxGetField fa 0 ''bbox'' = Some (mxNumeric [[5, 6, 50, 60]])
   \<and> mxGetField fa 0 ''bbox'' \<noteq> Some (mxNumeric [[5 + 1, 6 + 1, 50, 60]])"
  by (simp add: example_returned example_tracked getSequence_def example_output)
    (simp add: example_face_def)

subsection \<open>The shape of the output\<close>

text \<open>
  Claim C4. When the call returns and the session has accumulated \<open>K\<close> frames, the output
  is a struct array of dimensions 1 by \<open>K\<close> with the fields \<open>faces\<close>, \<open>width\<close> and
  \<open>height\<close>. Element \<open>i\<close> has the width and the height of frame \<open>i\<close>; its field
  \<open>faces\<close> is absent when the frame has no face, and otherwise a struct array with one
  element for each face and the fields \<open>landmarks\<close> and \<open>bbox\<close>.
\<close>

theorem C4_one_entry_for_each_frame:
  assumes "mexFunction E prhs = Some (Returned r)"
  shows "\<exists>out st. r = Some out \<and> tracked E prhs = Some st
    \<and> mxGetDimensions out = [1, length (getSequence st)]
    \<and> mxFieldNames out = [''faces'', ''width'', ''height'']
    \<and> mxGetNumberOfElements out = length (getSequence st)
    \<and> (\<forall>i < length (getSequence st).
          mxGetField out i ''width'' = Some (mxNumeric [[Frame.width (getSequence st ! i)]])
        \<and> mxGetField out i ''height'' = Some (mxNumeric [[Frame.height (getSequence st ! i)]])
        \<and> (faces (getSequence st ! i) = [] \<longrightarrow> mxGetField out i ''faces'' = None)
        \<and> (faces (getSequence st ! i) \<noteq> [] \<longrightarrow>
             (\<exists>fa. mxGetField out i ''faces'' = Some fa
                \<and> mxGetDimensions fa = [1, length (faces (getSequence st ! i))]
                \<and> mxFieldNames fa = [''landmarks'', ''bbox''])))"
proof -
  from mexFunction_Returned [OF assms] obtain st where t: "tracked E prhs = Some st"
    and r: "r = Some (fst (output_results (getSequence st)))"
    by blast
  let ?frs = "getSequence st"
  have e: "mxGetField (fst (output_results ?frs)) i ''width'' =
            Some (mxNumeric [[Frame.width (?frs ! i)]])
        \<and> mxGetField (fst (output_results ?frs)) i ''height'' =
            Some (mxNumeric [[Frame.height (?frs ! i)]])
        \<and> (faces (?frs ! i) = [] \<longrightarrow> mxGetField (fst (output_results ?frs)) i ''faces'' = None)
        \<and> (faces (?frs ! i) \<noteq> [] \<longrightarrow>
             (\<exists>fa. mxGetField (fst (output_results ?frs)) i ''faces'' = Some fa
                \<and> mxGetDimensions fa = [1, length (faces (?frs ! i))]
                \<and> mxFieldNames fa = [''landmarks'', ''bbox'']))"
    if "i < length ?frs" for i
    using that by (simp add: output_results_frame MxArray_int_def) (simp add: face_fields_def)
  from t r e show ?thesis
    by (simp add: output_results_shape)
qed

theorem C4_one_entry_for_each_frame_witness:
  "\<exists>out st.
     mexFunction example_env [string_arg ''model.dat'', string_arg ''seq.avi''] =
       Some (Returned (Some out))
   \<and> tracked example_env [string_arg ''model.dat'', string_arg ''seq.avi''] = Some st
   \<and> getSequence st = [\<lparr> faces = [example_face], width = 640, height = 480 \<rparr>,
        \<lparr> faces = [], width = 640, height = 480 \<rparr>]
   \<and> mxGetDimensions out = [1, 2]
   \<and> mxFieldNames out = [''faces'', ''width'', ''height'']
   \<and> mxGetField out 1 ''width'' = Some (mxNumeric [[640]])
   \<and> mxGetField out 1 ''height'' = Some (mxNumeric [[480]])
   \<and> mxGetField out 1 ''faces'' = None
   \<and> (\<exists>fa. mxGetField out 0 ''faces'' = Some fa \<and> mxGetDimensions fa = [1, 1])"
proof -
  let ?prhs = "[string_arg ''model.dat'', string_arg ''seq.avi'']"
  let ?frs = "[\<lparr> faces = [example_face], width = 640, height = 480 \<rparr>,
        \<lparr> faces = [], width = 640, height = 480 \<rparr>]"
  from C4_one_entry_for_each_frame [OF example_returned] obtain out st where
    o: "mexFunction example_env ?prhs = Some (Returned (Some out))"
    and t: "tracked example_env ?prhs = Some st"
    and d: "mxGetDimensions out = [1, length (getSequence st)]"
    and f: "mxFieldNames out = [''faces'', ''width'', ''height'']"
    and a: "\<forall>i < length (getSequence st).
          mxGetField out i ''width'' = Some (mxNumeric [[Frame.width (getSequence st ! i)]])
        \<and> mxGetField out i ''height'' = Some (mxNumeric [[Frame.height (getSequence st ! i)]])
        \<and> (faces (getSequence st ! i) = [] \<longrightarrow> mxGetField out i ''faces'' = None)
        \<and> (faces (getSequence st ! i) \<noteq> [] \<longrightarrow>
             (\<exists>fa. mxGetField out i ''faces'' = Some fa
                \<and> mxGetDimensions fa = [1, length (faces (getSequence st ! i))]
                \<and> mxFieldNames fa = [''landmarks'', ''bbox'']))"
    by (auto simp: example_returned)
  from t have s: "getSequence st = ?frs"
    by (auto simp: example_tracked getSequence_def)
  from a [rule_format, of 1] s
  have one: "mxGetField out 1 ''width'' = Some (mxNumeric [[640]])"
    "mxGetField out 1 ''height'' = Some (mxNumeric [[480]])"
    "mxGetField out 1 ''faces'' = None"
    by simp_all
  from a [rule_format, of 0] s
  have zero: "\<exists>fa. mxGetField out 0 ''faces'' = Some fa \<and> mxGetDimensions fa = [1, 1]"
    by auto
  from d s have d2: "mxGetDimensions out = [1, 2]"
    by simp
  from o t s d2 f one zero show ?thesis
    by blast
qed

subsection \<open>Runs that do not return, the source behind the pulls, the session after the output\<close>

lemma endless_never_returns:
  "mexFunction endless_env [string_arg ''model.dat'', string_arg ''seq.avi''] = None"
proof -
  have e: "sfl_create endless_env = (\<lambda>path scale. None)"
    "vsf_create endless_env = (\<lambda>path. Inr (Some endless_stream))"
    by (simp_all add: endless_env_def example_env_def)
  have "tracked endless_env [string_arg ''model.dat'', string_arg ''seq.avi''] = None"
    by (simp add: tracked_def example_parse track_def e endless_stream_def main_loop_endless)
  then show ?thesis
    by (simp add: mexFunction_def try_block_def)
qed

text \<open>The recorded pulls are what the source answered, read by read.\<close>

lemma tracked_pulled:
  assumes "tracked E prhs = Some st" and "parse_arguments (float_cast E) prhs = Inr p"
    and "vsf_create E (inputPath p) = Inr (Some vs)"
  shows "\<forall>k < length (pulled st). reads vs k = Read_true (pulled st ! k)"
proof -
  from assms(1,2) have "track E p initial = Some st"
    by (simp add: tracked_def)
  with assms(3) show ?thesis
    by (auto simp: track_def Let_def split: option.splits sum.splits bool.splits
        dest!: main_loop_pulled)
qed

text \<open>
  The addition in place of line 143 leaves every landmark of the session's sequence
  shifted by one.
\<close>

lemma snd_faces_loop:
  "snd (faces_loop j fcs arr) =
     map (\<lambda>f. f\<lparr>landmarks := map (\<lambda>p. \<lparr> pt_x = pt_x p + 1, pt_y = pt_y p + 1 \<rparr>) (landmarks f)\<rparr>)
       fcs"
  by (induction fcs arbitrary: j arr)
    (simp_all add: faces_loop.simps(2) Let_def split_beta convert_face_def points_of_Mat_def
      Mat_add_def Mat_of_points_def comp_def)

lemma snd_frames_loop:
  "snd (frames_loop i frs arr) =
     map (\<lambda>fr. fr\<lparr>faces := map (\<lambda>f. f\<lparr>landmarks :=
       map (\<lambda>p. \<lparr> pt_x = pt_x p + 1, pt_y = pt_y p + 1 \<rparr>) (landmarks f)\<rparr>) (faces fr)\<rparr>) frs"
  by (induction frs arbitrary: i arr)
    (simp_all add: frames_loop.simps(2) Let_def split_beta convert_frame_def snd_faces_loop)

lemma sequence_after_output:
  "snd (output_results frs) =
     map (\<lambda>fr. fr\<lparr>faces := map (\<lambda>f. f\<lparr>landmarks :=
       map (\<lambda>p. \<lparr> pt_x = pt_x p + 1, pt_y = pt_y p + 1 \<rparr>) (landmarks f)\<rparr>) (faces fr)\<rparr>) frs"
  by (simp add: output_results_def snd_frames_loop)

subsection \<open>The handler\<close>















end
